theory Spec2Isabelle
  imports Main "HOL-Library.Word"
begin

unbundle bit_operations_syntax

section \<open>Data\<close>

text \<open>
  A \<^verbatim>\<open>Uint8Array\<close> is a list of 8-bit words. A JavaScript string is a sequence of
  UTF-16 code units: \<^verbatim>\<open>str.length\<close>, \<^verbatim>\<open>str[i]\<close>, \<^verbatim>\<open>indexOf\<close> and \<^verbatim>\<open>substring\<close> all count
  code units. A \<^verbatim>\<open>BigInt\<close> is an \<^typ>\<open>int\<close>.
\<close>

type_synonym byte = "8 word"
type_synonym bytes = "byte list"
type_synonym code_unit = "16 word"
type_synonym jsstring = "code_unit list"

text \<open>A string literal of the source (ASCII) as a JavaScript string.\<close>

definition str :: "string \<Rightarrow> jsstring" where
  "str s = map (\<lambda>c. of_nat (of_char c)) s"

text \<open>
  The exceptions of the module: the three \<^verbatim>\<open>throw new Error(...)\<close> of the source, the
  \<^verbatim>\<open>RangeError\<close> of \<^verbatim>\<open>TypedArray.prototype.set\<close> and the \<^verbatim>\<open>DataError\<close> of
  \<^verbatim>\<open>crypto.subtle.importKey\<close>.
\<close>

datatype error =
    InvalidBase58Character
  | InvalidWIF
  | InvalidWIFSigningRejected
  | RangeError
  | DataError

section \<open>Platform primitives\<close>

subsection \<open>String and typed-array operations\<close>

text \<open>\<^verbatim>\<open>String.prototype.indexOf\<close> for a one-unit search string: first index, or -1.\<close>

fun indexOf :: "'a list \<Rightarrow> 'a \<Rightarrow> int" where
  "indexOf [] c = - 1"
| "indexOf (a # as) c =
     (if a = c then 0
      else (let r = indexOf as c in if r = - 1 then - 1 else r + 1))"

text \<open>\<^verbatim>\<open>s.substring(0, n)\<close> and \<^verbatim>\<open>s.padStart(n, '0')\<close>.\<close>

definition substring0 :: "nat \<Rightarrow> jsstring \<Rightarrow> jsstring" where
  "substring0 n s = take n s"

definition padStart :: "nat \<Rightarrow> code_unit \<Rightarrow> jsstring \<Rightarrow> jsstring" where
  "padStart n c s = replicate (n - length s) c @ s"

text \<open>
  \<^verbatim>\<open>target.set(source, offset)\<close> on typed arrays: a \<^verbatim>\<open>RangeError\<close> when the source does
  not fit, otherwise the elements from \<^verbatim>\<open>offset\<close> on are overwritten.
\<close>

definition u8_set :: "bytes \<Rightarrow> bytes \<Rightarrow> nat \<Rightarrow> error + bytes" where
  "u8_set target source offset =
     (if offset + length source > length target then Inl RangeError
      else Inr (take offset target @ source @ drop (offset + length source) target))"

text \<open>
  \<^verbatim>\<open>new TextEncoder().encode(s)\<close>: UTF-8 of the code points of \<^verbatim>\<open>s\<close>; a surrogate
  pair is one code point, a lone surrogate is replaced by U+FFFD.
\<close>

definition utf8_cp :: "nat \<Rightarrow> bytes" where
  "utf8_cp cp =
     (if cp < 0x80 then [of_nat cp]
      else if cp < 0x800 then [of_nat (0xC0 + cp div 64), of_nat (0x80 + cp mod 64)]
      else if cp < 0x10000 then
        [of_nat (0xE0 + cp div 4096), of_nat (0x80 + cp div 64 mod 64), of_nat (0x80 + cp mod 64)]
      else
        [of_nat (0xF0 + cp div 262144), of_nat (0x80 + cp div 4096 mod 64),
         of_nat (0x80 + cp div 64 mod 64), of_nat (0x80 + cp mod 64)])"

fun utf8 :: "jsstring \<Rightarrow> bytes" where
  "utf8 [] = []"
| "utf8 [u] =
     (if 0xD800 \<le> u \<and> u < 0xE000 then utf8_cp 0xFFFD else utf8_cp (unat u))"
| "utf8 (u # v # vs) =
     (if 0xD800 \<le> u \<and> u < 0xDC00 then
        (if 0xDC00 \<le> v \<and> v < 0xE000
         then utf8_cp (0x10000 + (unat u - 0xD800) * 1024 + (unat v - 0xDC00)) @ utf8 vs
         else utf8_cp 0xFFFD @ utf8 (v # vs))
      else if 0xDC00 \<le> u \<and> u < 0xE000 then utf8_cp 0xFFFD @ utf8 (v # vs)
      else utf8_cp (unat u) @ utf8 (v # vs))"

subsection \<open>Number formatting\<close>

text \<open>
  \<^verbatim>\<open>Number.prototype.toString(radix)\<close> on integral values, for radix 10 and 16:
  lowercase digits, no leading zeros, a minus sign for negative values.
\<close>

definition digit_char :: "int \<Rightarrow> code_unit" where
  "digit_char d = str ''0123456789abcdef'' ! nat d"

function digits_radix :: "int \<Rightarrow> int \<Rightarrow> jsstring \<Rightarrow> jsstring" where
  "digits_radix r n acc =
     (if 2 \<le> r \<and> r \<le> n then digits_radix r (n div r) (digit_char (n mod r) # acc)
      else digit_char n # acc)"
  by pat_completeness auto
termination
proof (relation "measure (\<lambda>(r, n, acc). nat n)")
  show "wf (measure (\<lambda>(r, n, acc). nat n))"
    by simp
next
  fix r n :: int and acc :: jsstring
  assume "2 \<le> r \<and> r \<le> n"
  then have "n div r < n"
    by (simp add: int_div_less_self)
  moreover have "0 < n"
    using \<open>2 \<le> r \<and> r \<le> n\<close> by linarith
  ultimately show "((r, n div r, digit_char (n mod r) # acc), (r, n, acc))
      \<in> measure (\<lambda>(r, n, acc). nat n)"
    by simp
qed

declare digits_radix.simps [simp del]

definition int_toString :: "int \<Rightarrow> int \<Rightarrow> jsstring" where
  "int_toString r n =
     (if n < 0 then str ''-'' @ digits_radix r (- n) [] else digits_radix r n [])"

text \<open>
  The result of \<^verbatim>\<open>Math.floor\<close> is an integral number, NaN or an infinity;
  \<^verbatim>\<open>toString(16)\<close> renders each of them. The digits of an integral value are taken
  to be exact; the language standard leaves the digits of radix 16 to the engine, and
  engines agree on them below \<open>2 ^ 53\<close>, where every integer is a double.
\<close>

datatype floored = Integral int | NotANumber | PlusInfinity | MinusInfinity

fun floored_toString16 :: "floored \<Rightarrow> jsstring" where
  "floored_toString16 (Integral n) = int_toString 16 n"
| "floored_toString16 NotANumber = str ''NaN''"
| "floored_toString16 PlusInfinity = str ''Infinity''"
| "floored_toString16 MinusInfinity = str ''-Infinity''"

subsection \<open>Double arithmetic\<close>

text \<open>
  A JavaScript number is an IEEE 754 double: \<open>Double m e\<close> is the value \<open>m * 2 ^ e\<close>
  (a double has \<open>\<bar>m\<bar> < 2 ^ 53\<close> and \<open>- 1074 \<le> e \<le> 971\<close>), or NaN, or an infinity.
  The two zeros are not told apart: they print alike and \<^verbatim>\<open>Math.floor\<close> keeps them.
\<close>

datatype number = Double int int | NaN | PosInf | NegInf

definition is_double :: "number \<Rightarrow> bool" where
  "is_double x =
     (case x of Double m e \<Rightarrow> \<bar>m\<bar> < 2 ^ 53 \<and> - 1074 \<le> e \<and> e \<le> 971 | _ \<Rightarrow> True)"

function bit_length :: "int \<Rightarrow> nat" where
  "bit_length n = (if n \<le> 0 then 0 else Suc (bit_length (n div 2)))"
  by pat_completeness auto
termination
  by (relation "measure nat") auto

declare bit_length.simps [simp del]

text \<open>
  The double nearest to \<open>m * 2 ^ e\<close>, ties to the even significand: the significand is
  cut to 53 bits (fewer where the exponent would fall below -1074) and rounded; a
  magnitude that rounds to \<open>2 ^ 1024\<close> or more becomes an infinity.
\<close>

definition round_to_double :: "int \<Rightarrow> int \<Rightarrow> number" where
  "round_to_double m e =
     (let a = \<bar>m\<bar>;
          k = max 0 (max (int (bit_length a) - 53) (- 1074 - e));
          q = a div 2 ^ nat k;
          r = a mod 2 ^ nat k;
          q1 = (if 2 * r > 2 ^ nat k \<or> (2 * r = 2 ^ nat k \<and> odd q) then q + 1 else q);
          q2 = (if q1 = 2 ^ 53 then 2 ^ 52 else q1);
          e2 = (if q1 = 2 ^ 53 then e + k + 1 else e + k)
      in if q2 = 0 then Double 0 0
         else if e2 \<le> 971 then Double (sgn m * q2) e2
         else if q2 * 2 ^ nat (e2 - 971) < 2 ^ 53
           then Double (sgn m * q2 * 2 ^ nat (e2 - 971)) 971
         else if m < 0 then NegInf else PosInf)"

text \<open>The product of two numbers (\<^verbatim>\<open>x * y\<close>): exact, then rounded once.\<close>

fun number_sign :: "number \<Rightarrow> int" where
  "number_sign (Double m e) = sgn m"
| "number_sign NaN = 0"
| "number_sign PosInf = 1"
| "number_sign NegInf = - 1"

fun number_times :: "number \<Rightarrow> number \<Rightarrow> number" where
  "number_times (Double m1 e1) (Double m2 e2) = round_to_double (m1 * m2) (e1 + e2)"
| "number_times NaN y = NaN"
| "number_times x NaN = NaN"
| "number_times x y =
     (if number_sign x * number_sign y = 0 then NaN
      else if number_sign x * number_sign y > 0 then PosInf else NegInf)"

text \<open>
  \<^verbatim>\<open>Math.floor\<close>: the largest integer not above the value; NaN and the infinities are
  kept.
\<close>

fun Math_floor :: "number \<Rightarrow> floored" where
  "Math_floor (Double m e) = Integral (if 0 \<le> e then m * 2 ^ nat e else m div 2 ^ nat (- e))"
| "Math_floor NaN = NotANumber"
| "Math_floor PosInf = PlusInfinity"
| "Math_floor NegInf = MinusInfinity"

text \<open>\<^verbatim>\<open>b.toString(16).padStart(2, '0')\<close> for a byte, and its join over an array.\<close>

definition hex_byte :: "byte \<Rightarrow> jsstring" where
  "hex_byte b = padStart 2 (of_nat (of_char CHR ''0'')) (int_toString 16 (uint b))"

definition hex_bytes :: "bytes \<Rightarrow> jsstring" where
  "hex_bytes bs = concat (map hex_byte bs)"

subsection \<open>SHA-256 and HMAC (Web Crypto)\<close>

text \<open>
  \<^verbatim>\<open>crypto.subtle.digest('SHA-256', data)\<close> is SHA-256 of FIPS 180-4 on 32-bit words:
  padding, message schedule (kept as a sliding window of sixteen words), 64 rounds per
  512-bit block.
\<close>

type_synonym u32 = "32 word"
type_synonym sha_state = "u32 \<times> u32 \<times> u32 \<times> u32 \<times> u32 \<times> u32 \<times> u32 \<times> u32"

definition rotr :: "nat \<Rightarrow> u32 \<Rightarrow> u32" where
  "rotr n x = word_rotr n x"

text \<open>
  The round constants: the first 32 bits of the fractional parts of the cube roots of the
  first 64 primes (1116352408 is \<^verbatim>\<open>428a2f98\<close> in hexadecimal).
\<close>

definition sha_K :: "u32 list" where
  "sha_K =
    [1116352408, 1899447441, 3049323471, 3921009573, 961987163, 1508970993,
     2453635748, 2870763221, 3624381080, 310598401, 607225278, 1426881987,
     1925078388, 2162078206, 2614888103, 3248222580, 3835390401, 4022224774,
     264347078, 604807628, 770255983, 1249150122, 1555081692, 1996064986,
     2554220882, 2821834349, 2952996808, 3210313671, 3336571891, 3584528711,
     113926993, 338241895, 666307205, 773529912, 1294757372, 1396182291,
     1695183700, 1986661051, 2177026350, 2456956037, 2730485921, 2820302411,
     3259730800, 3345764771, 3516065817, 3600352804, 4094571909, 275423344,
     430227734, 506948616, 659060556, 883997877, 958139571, 1322822218,
     1537002063, 1747873779, 1955562222, 2024104815, 2227730452, 2361852424,
     2428436474, 2756734187, 3204031479, 3329325298]"

definition sha_H0 :: sha_state where
  "sha_H0 = (0x6a09e667, 0xbb67ae85, 0x3c6ef372, 0xa54ff53a,
             0x510e527f, 0x9b05688c, 0x1f83d9ab, 0x5be0cd19)"

definition sha_next :: "u32 list \<Rightarrow> u32" where
  "sha_next w =
     (let s0 = rotr 7 (w ! 1) XOR rotr 18 (w ! 1) XOR drop_bit 3 (w ! 1);
          s1 = rotr 17 (w ! 14) XOR rotr 19 (w ! 14) XOR drop_bit 10 (w ! 14)
      in w ! 0 + s0 + w ! 9 + s1)"

fun sha_step :: "u32 \<Rightarrow> u32 \<Rightarrow> sha_state \<Rightarrow> sha_state" where
  "sha_step k w (a, b, c, d, e, f, g, h) =
     (let S1 = rotr 6 e XOR rotr 11 e XOR rotr 25 e;
          ch = (e AND f) XOR (NOT e AND g);
          t1 = h + S1 + ch + k + w;
          S0 = rotr 2 a XOR rotr 13 a XOR rotr 22 a;
          maj = (a AND b) XOR (a AND c) XOR (b AND c);
          t2 = S0 + maj
      in (t1 + t2, a, b, c, d + t1, e, f, g))"

fun sha_rounds :: "u32 list \<Rightarrow> u32 list \<Rightarrow> sha_state \<Rightarrow> sha_state" where
  "sha_rounds [] w s = s"
| "sha_rounds (k # ks) w s = sha_rounds ks (tl w @ [sha_next w]) (sha_step k (hd w) s)"

fun sha_add :: "sha_state \<Rightarrow> sha_state \<Rightarrow> sha_state" where
  "sha_add (a, b, c, d, e, f, g, h) (a', b', c', d', e', f', g', h') =
     (a + a', b + b', c + c', d + d', e + e', f + f', g + g', h + h')"

fun be32 :: "bytes \<Rightarrow> u32 list" where
  "be32 (b0 # b1 # b2 # b3 # bs) =
     (push_bit 24 (ucast b0) OR push_bit 16 (ucast b1) OR push_bit 8 (ucast b2) OR ucast b3)
       # be32 bs"
| "be32 _ = []"

definition sha_compress :: "sha_state \<Rightarrow> bytes \<Rightarrow> sha_state" where
  "sha_compress s block = sha_add s (sha_rounds sha_K (be32 block) s)"

function sha_blocks :: "sha_state \<Rightarrow> bytes \<Rightarrow> sha_state" where
  "sha_blocks s m =
     (if length m < 64 then s else sha_blocks (sha_compress s (take 64 m)) (drop 64 m))"
  by pat_completeness auto
termination
  by (relation "measure (\<lambda>(s, m). length m)") auto

declare sha_blocks.simps [simp del]

definition sha_pad :: "bytes \<Rightarrow> bytes" where
  "sha_pad m =
     (let l = (of_nat (8 * length m) :: 64 word)
      in m @ [0x80] @ replicate ((119 - length m mod 64) mod 64) 0 @
         map (\<lambda>i. ucast (drop_bit (8 * i) l)) [7, 6, 5, 4, 3, 2, 1, 0])"

fun sha_out :: "sha_state \<Rightarrow> bytes" where
  "sha_out (a, b, c, d, e, f, g, h) =
     concat (map (\<lambda>x. [ucast (drop_bit 24 x), ucast (drop_bit 16 x), ucast (drop_bit 8 x), ucast x])
       [a, b, c, d, e, f, g, h])"

definition sha256 :: "bytes \<Rightarrow> bytes" where
  "sha256 m = sha_out (sha_blocks sha_H0 (sha_pad m))"

text \<open>
  \<^verbatim>\<open>crypto.subtle.importKey('raw', key, {name: 'HMAC', hash: 'SHA-256'}, ...)\<close> rejects
  an empty key with a \<^verbatim>\<open>DataError\<close>; \<^verbatim>\<open>crypto.subtle.sign('HMAC', key, data)\<close> is
  HMAC of RFC 2104 with SHA-256 (block size 64).
\<close>

definition importKey :: "bytes \<Rightarrow> error + bytes" where
  "importKey keyData = (if length keyData = 0 then Inl DataError else Inr keyData)"

definition hmac_sha256 :: "bytes \<Rightarrow> bytes \<Rightarrow> bytes" where
  "hmac_sha256 key data =
     (let k0 = (if length key > 64 then sha256 key else key);
          k = k0 @ replicate (64 - length k0) 0
      in sha256 (map (\<lambda>b. b XOR 0x5c) k @ sha256 (map (\<lambda>b. b XOR 0x36) k @ data)))"

section \<open>The wallet module\<close>

subsection \<open>Base58\<close>

definition ALPHABET :: jsstring where
  "ALPHABET = str ''123456789ABCDEFGHJKLMNPQRSTUVWXYZabcdefghijkmnopqrstuvwxyz''"

text \<open>
  \<^verbatim>\<open>encodeBase58\<close>: the three loops of the source, in order. The first folds the buffer
  into a \<^verbatim>\<open>BigInt\<close>, the second prepends one digit per division by 58 while
  \<^verbatim>\<open>x > 0n\<close>, the third prepends \<^verbatim>\<open>ALPHABET[0]\<close> for every leading zero byte.
\<close>

definition encodeBase58_acc :: "bytes \<Rightarrow> int" where
  "encodeBase58_acc buffer = foldl (\<lambda>x b. x * 256 + uint b) 0 buffer"

function encodeBase58_digits :: "int \<Rightarrow> jsstring \<Rightarrow> jsstring" where
  "encodeBase58_digits x result =
     (if x > 0 then encodeBase58_digits (x div 58) (ALPHABET ! nat (x mod 58) # result)
      else result)"
  by pat_completeness auto
termination
  by (relation "measure (\<lambda>(x, result). nat x)") (auto simp: int_div_less_self)

declare encodeBase58_digits.simps [simp del]

fun encodeBase58_zeros :: "bytes \<Rightarrow> jsstring \<Rightarrow> jsstring" where
  "encodeBase58_zeros [] result = result"
| "encodeBase58_zeros (b # bs) result =
     (if b = 0 then encodeBase58_zeros bs (ALPHABET ! 0 # result) else result)"

definition encodeBase58 :: "bytes \<Rightarrow> jsstring" where
  "encodeBase58 buffer =
     (let x = encodeBase58_acc buffer;
          result = encodeBase58_digits x []
      in encodeBase58_zeros buffer result)"

text \<open>
  \<^verbatim>\<open>decodeBase58\<close>: the first loop throws at the first character outside the alphabet;
  the second emits the bytes of the number, most significant first; the third prepends
  a zero byte for every leading \<^verbatim>\<open>ALPHABET[0]\<close>.
\<close>

fun decodeBase58_acc :: "jsstring \<Rightarrow> int \<Rightarrow> error + int" where
  "decodeBase58_acc [] x = Inr x"
| "decodeBase58_acc (c # cs) x =
     (let charIndex = indexOf ALPHABET c
      in if charIndex = - 1 then Inl InvalidBase58Character
         else decodeBase58_acc cs (x * 58 + charIndex))"

function decodeBase58_bytes :: "int \<Rightarrow> bytes \<Rightarrow> bytes" where
  "decodeBase58_bytes x bytes =
     (if x > 0 then decodeBase58_bytes (x div 256) (of_int (x mod 256) # bytes)
      else bytes)"
  by pat_completeness auto
termination
  by (relation "measure (\<lambda>(x, bytes). nat x)") (auto simp: int_div_less_self)

declare decodeBase58_bytes.simps [simp del]

fun decodeBase58_zeros :: "jsstring \<Rightarrow> bytes \<Rightarrow> bytes" where
  "decodeBase58_zeros [] bytes = bytes"
| "decodeBase58_zeros (c # cs) bytes =
     (if c = ALPHABET ! 0 then decodeBase58_zeros cs (0 # bytes) else bytes)"

definition decodeBase58 :: "jsstring \<Rightarrow> error + bytes" where
  "decodeBase58 s =
     (case decodeBase58_acc s 0 of
        Inl e \<Rightarrow> Inl e
      | Inr x \<Rightarrow> Inr (decodeBase58_zeros s (decodeBase58_bytes x [])))"

subsection \<open>Checksums and key validation\<close>

definition doubleSha256 :: "bytes \<Rightarrow> bytes" where
  "doubleSha256 data = (let first = sha256 data; second = sha256 first in second)"

text \<open>The comparison loop of \<^verbatim>\<open>validateWIF\<close> over the indices 0 to 3.\<close>

fun validateWIF_compare :: "nat list \<Rightarrow> bytes \<Rightarrow> bytes \<Rightarrow> bool" where
  "validateWIF_compare [] checksum calculatedChecksum = True"
| "validateWIF_compare (i # is) checksum calculatedChecksum =
     (if checksum ! i \<noteq> calculatedChecksum ! i then False
      else validateWIF_compare is checksum calculatedChecksum)"

text \<open>The body of the \<^verbatim>\<open>try\<close> block, then the \<^verbatim>\<open>catch\<close> that turns any exception into false.\<close>

definition validateWIF_try :: "jsstring \<Rightarrow> error + bool" where
  "validateWIF_try wif =
     (case decodeBase58 wif of
        Inl e \<Rightarrow> Inl e
      | Inr decoded \<Rightarrow>
          if length decoded \<noteq> 38 then Inr False
          else if decoded ! 0 \<noteq> 0x80 then Inr False
          else if decoded ! 33 \<noteq> 0x01 then Inr False
          else
            (let payload = take 34 decoded;
                 checksum = drop 34 decoded;
                 calculatedChecksum = take 4 (doubleSha256 payload)
             in Inr (validateWIF_compare [0, 1, 2, 3] checksum calculatedChecksum)))"

definition validateWIF :: "jsstring \<Rightarrow> bool" where
  "validateWIF wif = (case validateWIF_try wif of Inl e \<Rightarrow> False | Inr b \<Rightarrow> b)"

subsection \<open>Addresses and keys\<close>

definition deriveAddressFromPrivKey :: "bytes \<Rightarrow> error + jsstring" where
  "deriveAddressFromPrivKey privKey =
     (let pubKey = sha256 privKey;
          hash160 = take 20 (sha256 pubKey);
          version = 0x00;
          payload = (replicate 21 0)[0 := version]
      in case u8_set payload hash160 1 of
           Inl e \<Rightarrow> Inl e
         | Inr payload \<Rightarrow>
             (let checksum = take 4 (doubleSha256 payload)
              in case u8_set (replicate 25 0) payload 0 of
                   Inl e \<Rightarrow> Inl e
                 | Inr finalBuffer \<Rightarrow>
                     (case u8_set finalBuffer checksum 21 of
                        Inl e \<Rightarrow> Inl e
                      | Inr finalBuffer \<Rightarrow> Inr (encodeBase58 finalBuffer))))"

definition deriveAddressFromWIF :: "jsstring \<Rightarrow> error + jsstring" where
  "deriveAddressFromWIF wif =
     (let isValid = validateWIF wif
      in if \<not> isValid then Inl InvalidWIF
         else case decodeBase58 wif of
                Inl e \<Rightarrow> Inl e
              | Inr decoded \<Rightarrow>
                  (let privKey = take 32 (drop 1 decoded)
                   in deriveAddressFromPrivKey privKey))"

definition generateVeritasAddress :: "jsstring \<Rightarrow> error + jsstring" where
  "generateVeritasAddress seed =
     (let entropy = utf8 (seed @ str ''VERITAS_PSI_STOCHASTIC_FLUX_958.312108'');
          privKey = sha256 entropy
      in deriveAddressFromPrivKey privKey)"

text \<open>
  \<^verbatim>\<open>deriveWIF\<close> in two parts: the private key from the seed, and the rest of the body
  (version, flag, checksum, Base58), which depends on the private key only.
\<close>

definition wifFromPrivKey :: "bytes \<Rightarrow> error + jsstring" where
  "wifFromPrivKey privKey =
     (let version = 0x80;
          compressedFlag = 0x01;
          payload = (replicate 34 0)[0 := version]
      in case u8_set payload privKey 1 of
           Inl e \<Rightarrow> Inl e
         | Inr payload \<Rightarrow>
             (let payload = payload[33 := compressedFlag];
                  checksum = take 4 (doubleSha256 payload)
              in case u8_set (replicate 38 0) payload 0 of
                   Inl e \<Rightarrow> Inl e
                 | Inr finalBuffer \<Rightarrow>
                     (case u8_set finalBuffer checksum 34 of
                        Inl e \<Rightarrow> Inl e
                      | Inr finalBuffer \<Rightarrow> Inr (encodeBase58 finalBuffer))))"

definition deriveWIF :: "jsstring \<Rightarrow> error + jsstring" where
  "deriveWIF seed =
     (let entropy = utf8 (seed @ str ''SEC_KEY_DERIVATION_ACTIVE_UNTRAMMELLED'');
          privKey = sha256 entropy
      in wifFromPrivKey privKey)"

subsection \<open>Signing\<close>

text \<open>
  The amount is an IEEE double. The code observes it twice, through
  \<^verbatim>\<open>`${amount}`\<close> and through \<^verbatim>\<open>Math.floor(amount * 100000000)\<close>, and the signing
  function is written over the pair of these two observations. For the number \<open>x\<close> the
  pair is \<open>js_amount text x\<close>: the second observation is computed in double arithmetic,
  the first is the decimal rendering \<open>text\<close> of \<open>x\<close>, which is supplied
  (\<^verbatim>\<open>Number::toString\<close> is not modelled).
  \<^verbatim>\<open>Date.now()\<close> is a parameter: the integral number of milliseconds since the epoch.
\<close>

record amount =
  amount_text :: jsstring
  amount_floor :: floored

definition js_amount :: "jsstring \<Rightarrow> number \<Rightarrow> amount" where
  "js_amount text x =
     \<lparr>amount_text = text,
      amount_floor = Math_floor (number_times x (Double 100000000 0))\<rparr>"

record signed_tx =
  txid :: jsstring
  raw :: jsstring
  signature :: jsstring

definition signSequestrationTx ::
    "int \<Rightarrow> jsstring \<Rightarrow> amount \<Rightarrow> jsstring \<Rightarrow> error + signed_tx" where
  "signSequestrationTx now wif amount destination =
     (let isValid = validateWIF wif
      in if \<not> isValid then Inl InvalidWIFSigningRejected
         else case decodeBase58 wif of
                Inl e \<Rightarrow> Inl e
              | Inr decoded \<Rightarrow>
                  (let privKeyBytes = take 32 (drop 1 decoded)
                   in case importKey privKeyBytes of
                        Inl e \<Rightarrow> Inl e
                      | Inr key \<Rightarrow>
                          (let txData = utf8 (amount_text amount @ str '':'' @ destination @
                                 str '':'' @ int_toString 10 now);
                               signatureBuffer = hmac_sha256 key txData;
                               signature = hex_bytes signatureBuffer;
                               amountSats = padStart 16 (of_nat (of_char CHR ''0''))
                                 (floored_toString16 (amount_floor amount));
                               rawTx = str ''0200000001'' @ substring0 64 signature @
                                 str ''00000000ffffffff01'' @ amountSats @ str ''1976a914'' @
                                 substring0 40 destination @ str ''88ac00000000'';
                               txid = foldl (\<lambda>s b. s @ hex_byte b) []
                                 (rev (doubleSha256 (utf8 rawTx)))
                           in Inr \<lparr>txid = txid, raw = rawTx, signature = signature\<rparr>)))"

subsection \<open>The calls of the crypto interface\<close>

text \<open>
  The same functions with their effect on the platform made explicit: every call of
  \<^verbatim>\<open>crypto.subtle\<close> is appended to a log, in the order the code performs it. Each function
  takes the log and returns its result with the log extended; statements after a
  \<^verbatim>\<open>return\<close> or a \<^verbatim>\<open>throw\<close> are not executed and log nothing.
\<close>

datatype crypto_call = Digest bytes | ImportKey bytes | Sign bytes bytes

definition digest_traced :: "bytes \<Rightarrow> crypto_call list \<Rightarrow> bytes \<times> crypto_call list" where
  "digest_traced data log = (sha256 data, log @ [Digest data])"

definition doubleSha256_traced :: "bytes \<Rightarrow> crypto_call list \<Rightarrow> bytes \<times> crypto_call list" where
  "doubleSha256_traced data log =
     (let (first, log1) = digest_traced data log;
          (second, log2) = digest_traced first log1
      in (second, log2))"

definition validateWIF_traced :: "jsstring \<Rightarrow> crypto_call list \<Rightarrow> bool \<times> crypto_call list" where
  "validateWIF_traced wif log =
     (case decodeBase58 wif of
        Inl e \<Rightarrow> (False, log)
      | Inr decoded \<Rightarrow>
          if length decoded \<noteq> 38 then (False, log)
          else if decoded ! 0 \<noteq> 0x80 then (False, log)
          else if decoded ! 33 \<noteq> 0x01 then (False, log)
          else
            (let payload = take 34 decoded;
                 checksum = drop 34 decoded;
                 (digest, log1) = doubleSha256_traced payload log;
                 calculatedChecksum = take 4 digest
             in (validateWIF_compare [0, 1, 2, 3] checksum calculatedChecksum, log1)))"

definition deriveAddressFromPrivKey_traced ::
    "bytes \<Rightarrow> crypto_call list \<Rightarrow> (error + jsstring) \<times> crypto_call list" where
  "deriveAddressFromPrivKey_traced privKey log =
     (let (pubKey, log1) = digest_traced privKey log;
          (digest, log2) = digest_traced pubKey log1;
          hash160 = take 20 digest;
          version = 0x00;
          payload = (replicate 21 0)[0 := version]
      in case u8_set payload hash160 1 of
           Inl e \<Rightarrow> (Inl e, log2)
         | Inr payload \<Rightarrow>
             (let (digest2, log3) = doubleSha256_traced payload log2;
                  checksum = take 4 digest2
              in case u8_set (replicate 25 0) payload 0 of
                   Inl e \<Rightarrow> (Inl e, log3)
                 | Inr finalBuffer \<Rightarrow>
                     (case u8_set finalBuffer checksum 21 of
                        Inl e \<Rightarrow> (Inl e, log3)
                      | Inr finalBuffer \<Rightarrow> (Inr (encodeBase58 finalBuffer), log3))))"

definition deriveAddressFromWIF_traced ::
    "jsstring \<Rightarrow> crypto_call list \<Rightarrow> (error + jsstring) \<times> crypto_call list" where
  "deriveAddressFromWIF_traced wif log =
     (let (isValid, log1) = validateWIF_traced wif log
      in if \<not> isValid then (Inl InvalidWIF, log1)
         else case decodeBase58 wif of
                Inl e \<Rightarrow> (Inl e, log1)
              | Inr decoded \<Rightarrow>
                  (let privKey = take 32 (drop 1 decoded)
                   in deriveAddressFromPrivKey_traced privKey log1))"

definition signSequestrationTx_traced ::
    "int \<Rightarrow> jsstring \<Rightarrow> amount \<Rightarrow> jsstring \<Rightarrow> crypto_call list \<Rightarrow>
     (error + signed_tx) \<times> crypto_call list" where
  "signSequestrationTx_traced now wif amount destination log =
     (let (isValid, log1) = validateWIF_traced wif log
      in if \<not> isValid then (Inl InvalidWIFSigningRejected, log1)
         else case decodeBase58 wif of
                Inl e \<Rightarrow> (Inl e, log1)
              | Inr decoded \<Rightarrow>
                  (let privKeyBytes = take 32 (drop 1 decoded)
                   in case importKey privKeyBytes of
                        Inl e \<Rightarrow> (Inl e, log1 @ [ImportKey privKeyBytes])
                      | Inr key \<Rightarrow>
                          (let log2 = log1 @ [ImportKey privKeyBytes];
                               txData = utf8 (amount_text amount @ str '':'' @ destination @
                                 str '':'' @ int_toString 10 now);
                               signatureBuffer = hmac_sha256 key txData;
                               log3 = log2 @ [Sign key txData];
                               signature = hex_bytes signatureBuffer;
                               amountSats = padStart 16 (of_nat (of_char CHR ''0''))
                                 (floored_toString16 (amount_floor amount));
                               rawTx = str ''0200000001'' @ substring0 64 signature @
                                 str ''00000000ffffffff01'' @ amountSats @ str ''1976a914'' @
                                 substring0 40 destination @ str ''88ac00000000'';
                               (digest, log4) = doubleSha256_traced (utf8 rawTx) log3;
                               txid = foldl (\<lambda>s b. s @ hex_byte b) [] (rev digest)
                           in (Inr \<lparr>txid = txid, raw = rawTx, signature = signature\<rparr>, log4))))"

section \<open>The layouts of the specification\<close>

text \<open>
  The byte layouts and the hexadecimal rendering in the specification's own words, to
  compare the code with: the 38-byte key blob (version, secret, compression flag,
  checksum), the 25-byte identity blob (version, the first 20 bytes of the digest of the
  digest of the secret, checksum), and fixed-width lowercase hexadecimal.
\<close>

definition spec_KeyBlob :: "bytes \<Rightarrow> bytes" where
  "spec_KeyBlob secret =
     (0x80 # secret @ [0x01]) @ take 4 (doubleSha256 (0x80 # secret @ [0x01]))"

definition spec_IdentityBlob :: "bytes \<Rightarrow> bytes" where
  "spec_IdentityBlob secret =
     (0x00 # take 20 (sha256 (sha256 secret))) @
     take 4 (doubleSha256 (0x00 # take 20 (sha256 (sha256 secret))))"

fun spec_hex_fixed :: "nat \<Rightarrow> int \<Rightarrow> jsstring" where
  "spec_hex_fixed 0 n = []"
| "spec_hex_fixed (Suc k) n = spec_hex_fixed k (n div 16) @ [digit_char (n mod 16)]"

definition spec_hex :: "bytes \<Rightarrow> jsstring" where
  "spec_hex bs = concat (map (\<lambda>b. spec_hex_fixed 2 (uint b)) bs)"

section \<open>Base58: the round trip\<close>

subsection \<open>Alphabet and index\<close>

lemma ALPHABET_length: "length ALPHABET = 58"
  by (simp add: ALPHABET_def str_def)

lemma ALPHABET_distinct: "distinct ALPHABET"
  by (simp add: ALPHABET_def str_def)

lemma indexOf_ge: "- 1 \<le> indexOf xs c"
  by (induction xs) (auto simp: Let_def)

lemma indexOf_absent: "indexOf xs c = - 1 \<longleftrightarrow> c \<notin> set xs"
proof (induction xs)
  case Nil
  show ?case by simp
next
  case (Cons a xs)
  then show ?case
    using indexOf_ge [of xs c] by (auto simp: Let_def)
qed

lemma indexOf_nth:
  "distinct xs \<Longrightarrow> i < length xs \<Longrightarrow> indexOf xs (xs ! i) = int i"
proof (induction xs arbitrary: i)
  case Nil
  then show ?case by simp
next
  case (Cons a xs)
  show ?case
  proof (cases i)
    case 0
    then show ?thesis by simp
  next
    case (Suc j)
    with Cons.prems have j: "j < length xs" and d: "distinct xs" and a: "a \<notin> set xs"
      by simp_all
    from j a have "xs ! j \<noteq> a"
      by (metis nth_mem)
    with Cons.IH [OF d j] Suc show ?thesis
      by (simp add: Let_def)
  qed
qed

lemma indexOf_less: "c \<in> set xs \<Longrightarrow> 0 \<le> indexOf xs c \<and> indexOf xs c < int (length xs)"
  using indexOf_ge [of xs c] indexOf_absent [of xs c]
  by (induction xs) (auto simp: Let_def)

subsection \<open>The digit loops\<close>

lemma encodeBase58_digits_append:
  "encodeBase58_digits x r = encodeBase58_digits x [] @ r"
proof (induction "nat x" arbitrary: x r rule: less_induct)
  case less
  show ?case
  proof (cases "x > 0")
    case False
    then show ?thesis
      by (simp add: encodeBase58_digits.simps)
  next
    case True
    then have lt: "nat (x div 58) < nat x"
      by (simp add: int_div_less_self)
    let ?c = "ALPHABET ! nat (x mod 58)"
    have "encodeBase58_digits x r = encodeBase58_digits (x div 58) (?c # r)"
      using True by (simp add: encodeBase58_digits.simps [of x])
    also have "\<dots> = encodeBase58_digits (x div 58) [] @ ?c # r"
      using less [OF lt] .
    also have "\<dots> = (encodeBase58_digits (x div 58) [] @ [?c]) @ r"
      by simp
    also have "encodeBase58_digits (x div 58) [] @ [?c] = encodeBase58_digits (x div 58) [?c]"
      using less [OF lt, of "[?c]"] by simp
    also have "\<dots> = encodeBase58_digits x []"
      using True by (simp add: encodeBase58_digits.simps [of x])
    finally show ?thesis .
  qed
qed

lemma encodeBase58_digits_step:
  "x > 0 \<Longrightarrow>
   encodeBase58_digits x [] = encodeBase58_digits (x div 58) [] @ [ALPHABET ! nat (x mod 58)]"
  using encodeBase58_digits_append [of "x div 58" "[ALPHABET ! nat (x mod 58)]"]
  by (simp add: encodeBase58_digits.simps [of x])

lemma decodeBase58_acc_append:
  "decodeBase58_acc (a @ b) x =
     (case decodeBase58_acc a x of Inl e \<Rightarrow> Inl e | Inr y \<Rightarrow> decodeBase58_acc b y)"
  by (induction a arbitrary: x) (auto simp: Let_def)

lemma decodeBase58_acc_digit:
  assumes "0 \<le> d" "d < 58"
  shows "decodeBase58_acc [ALPHABET ! nat d] x = Inr (x * 58 + d)"
proof -
  have "indexOf ALPHABET (ALPHABET ! nat d) = int (nat d)"
    using assms by (intro indexOf_nth ALPHABET_distinct) (simp add: ALPHABET_length)
  then show ?thesis
    using assms by (simp add: Let_def)
qed

lemma decodeBase58_acc_digits:
  "0 \<le> x \<Longrightarrow> decodeBase58_acc (encodeBase58_digits x []) 0 = Inr x"
proof (induction "nat x" arbitrary: x rule: less_induct)
  case less
  show ?case
  proof (cases "x > 0")
    case False
    with less.prems show ?thesis
      by (simp add: encodeBase58_digits.simps)
  next
    case True
    then have lt: "nat (x div 58) < nat x" and nn: "0 \<le> x div 58"
      by (simp_all add: int_div_less_self pos_imp_zdiv_nonneg_iff)
    have "decodeBase58_acc (encodeBase58_digits x []) 0 =
        decodeBase58_acc [ALPHABET ! nat (x mod 58)] (x div 58)"
      using less.hyps [OF lt nn] True
      by (simp add: encodeBase58_digits_step decodeBase58_acc_append)
    also have "\<dots> = Inr (x div 58 * 58 + x mod 58)"
      by (rule decodeBase58_acc_digit) simp_all
    finally show ?thesis by simp
  qed
qed


lemma encodeBase58_digits_head:
  "x > 0 \<Longrightarrow>
   encodeBase58_digits x [] \<noteq> [] \<and> hd (encodeBase58_digits x []) \<noteq> ALPHABET ! 0"
proof (induction "nat x" arbitrary: x rule: less_induct)
  case less
  let ?c = "ALPHABET ! nat (x mod 58)"
  show ?case
  proof (cases "x div 58 > 0")
    case True
    then have "nat (x div 58) < nat x"
      using less.prems by (simp add: int_div_less_self)
    from less.hyps [OF this True] show ?thesis
      using less.prems by (simp add: encodeBase58_digits_step [of x])
  next
    case False
    then have small: "x < 58"
      using less.prems by (simp add: pos_imp_zdiv_pos_iff)
    then have "x div 58 = 0" "x mod 58 = x"
      using less.prems by simp_all
    then have eq: "encodeBase58_digits x [] = [ALPHABET ! nat x]"
      using less.prems
      by (simp add: encodeBase58_digits_step [of x] encodeBase58_digits.simps [of 0])
    have "ALPHABET ! nat x \<noteq> ALPHABET ! 0"
      using less.prems small ALPHABET_distinct
      by (simp add: nth_eq_iff_index_eq ALPHABET_length)
    with eq show ?thesis by simp
  qed
qed

lemma encodeBase58_zeros_eq:
  "encodeBase58_zeros bs r =
     replicate (length (takeWhile (\<lambda>b. b = 0) bs)) (ALPHABET ! 0) @ r"
  by (induction bs arbitrary: r) (simp_all add: replicate_append_same)

lemma decodeBase58_zeros_eq:
  "e = [] \<or> hd e \<noteq> ALPHABET ! 0 \<Longrightarrow>
   decodeBase58_zeros (replicate n (ALPHABET ! 0) @ e) r = replicate n 0 @ r"
proof (induction n arbitrary: r)
  case 0
  then show ?case by (cases e) auto
next
  case (Suc n)
  then show ?case by (simp add: replicate_append_same)
qed

lemma decodeBase58_acc_zeros:
  "decodeBase58_acc (replicate n (ALPHABET ! 0)) 0 = Inr 0"
proof -
  have "indexOf ALPHABET (ALPHABET ! 0) = 0"
    using indexOf_nth [OF ALPHABET_distinct, of 0] by (simp add: ALPHABET_length)
  then show ?thesis
    by (induction n) (simp_all add: Let_def)
qed

subsection \<open>The number of a buffer and its bytes\<close>

lemma encodeBase58_acc_snoc:
  "encodeBase58_acc (bs @ [b]) = encodeBase58_acc bs * 256 + uint b"
  by (simp add: encodeBase58_acc_def)

lemma encodeBase58_acc_nonneg: "0 \<le> encodeBase58_acc bs"
  by (induction bs rule: rev_induct) (simp_all add: encodeBase58_acc_snoc encodeBase58_acc_def)

lemma encodeBase58_acc_zero_iff:
  "encodeBase58_acc bs = 0 \<longleftrightarrow> (\<forall>b \<in> set bs. b = 0)"
proof (induction bs rule: rev_induct)
  case Nil
  show ?case by (simp add: encodeBase58_acc_def)
next
  case (snoc b bs)
  have "0 \<le> uint b" by simp
  have "encodeBase58_acc bs * 256 + uint b = 0 \<longleftrightarrow> encodeBase58_acc bs = 0 \<and> uint b = 0"
    using encodeBase58_acc_nonneg [of bs] \<open>0 \<le> uint b\<close> by linarith
  with snoc show ?case
    by (auto simp: encodeBase58_acc_snoc uint_0_iff)
qed

lemma decodeBase58_bytes_eq:
  "decodeBase58_bytes (encodeBase58_acc bs) r = dropWhile (\<lambda>b. b = 0) bs @ r"
proof (induction bs arbitrary: r rule: rev_induct)
  case Nil
  show ?case
    by (simp add: encodeBase58_acc_def decodeBase58_bytes.simps)
next
  case (snoc b bs)
  let ?x = "encodeBase58_acc (bs @ [b])"
  show ?case
  proof (cases "?x > 0")
    case False
    then have "?x = 0"
      using encodeBase58_acc_nonneg [of "bs @ [b]"] by linarith
    then have "\<forall>c \<in> set (bs @ [b]). c = 0"
      by (simp only: encodeBase58_acc_zero_iff)
    then have "dropWhile (\<lambda>b. b = 0) (bs @ [b]) = []"
      by (simp only: dropWhile_eq_Nil_conv) 
    with \<open>?x = 0\<close> show ?thesis
      by (simp add: decodeBase58_bytes.simps)
  next
    case True
    have ub: "0 \<le> uint b" "uint b < 256"
      using uint_bounded [of b] by simp_all
    have d: "?x div 256 = encodeBase58_acc bs"
      using ub by (simp add: encodeBase58_acc_snoc)
    have m: "(of_int (?x mod 256) :: byte) = b"
      using ub by (simp add: encodeBase58_acc_snoc)
    have "decodeBase58_bytes ?x r = decodeBase58_bytes (encodeBase58_acc bs) (b # r)"
      using True d m by (simp add: decodeBase58_bytes.simps [of ?x])
    also have "\<dots> = dropWhile (\<lambda>b. b = 0) bs @ b # r"
      by (rule snoc.IH)
    also have "\<dots> = dropWhile (\<lambda>b. b = 0) (bs @ [b]) @ r"
    proof (cases "\<forall>c \<in> set bs. c = 0")
      case False
      then obtain c where "c \<in> set bs" "\<not> c = 0"
        by blast
      then show ?thesis
        by (simp add: dropWhile_append1 [of c bs "\<lambda>b. b = 0"])
    next
      case allz: True
      then have "encodeBase58_acc bs = 0"
        by (simp add: encodeBase58_acc_zero_iff)
      with True have "b \<noteq> 0"
        by (auto simp: encodeBase58_acc_snoc)
      with allz show ?thesis
        by (simp add: dropWhile_append2)
    qed
    finally show ?thesis .
  qed
qed

subsection \<open>Round trip\<close>

lemma encodeBase58_shape:
  "encodeBase58 b = replicate (length (takeWhile (\<lambda>b. b = 0) b)) (ALPHABET ! 0) @
     encodeBase58_digits (encodeBase58_acc b) []"
  by (simp add: encodeBase58_def encodeBase58_zeros_eq)

lemma decodeBase58_encodeBase58: "decodeBase58 (encodeBase58 b) = Inr b"
proof -
  let ?z = "length (takeWhile (\<lambda>b. b = 0) b)"
  let ?x = "encodeBase58_acc b"
  let ?e = "encodeBase58_digits ?x []"
  have x: "0 \<le> ?x"
    by (rule encodeBase58_acc_nonneg)
  have acc: "decodeBase58_acc (encodeBase58 b) 0 = Inr ?x"
    by (simp add: encodeBase58_shape decodeBase58_acc_append decodeBase58_acc_zeros
        decodeBase58_acc_digits [OF x])
  have e: "?e = [] \<or> hd ?e \<noteq> ALPHABET ! 0"
  proof (cases "?x > 0")
    case True
    then show ?thesis
      using encodeBase58_digits_head by blast
  next
    case False
    then show ?thesis
      by (simp add: encodeBase58_digits.simps)
  qed
  have "decodeBase58 (encodeBase58 b) =
      Inr (decodeBase58_zeros (encodeBase58 b) (decodeBase58_bytes ?x []))"
    by (simp add: decodeBase58_def acc)
  also have "\<dots> = Inr (replicate ?z 0 @ dropWhile (\<lambda>b. b = 0) b)"
    by (simp add: encodeBase58_shape decodeBase58_zeros_eq [OF e] decodeBase58_bytes_eq)
  also have "replicate ?z 0 = takeWhile (\<lambda>b. b = 0) b"
    by (induction b) simp_all
  finally show ?thesis
    by simp
qed

section \<open>Digests, keys and addresses\<close>

lemma length_sha_out: "length (sha_out s) = 32"
  by (induction s rule: sha_out.induct) simp

lemma length_sha256: "length (sha256 m) = 32"
  by (simp add: sha256_def length_sha_out)

lemma length_doubleSha256: "length (doubleSha256 m) = 32"
  by (simp add: doubleSha256_def length_sha256)

lemma validateWIF_compare_eq:
  "length c = 4 \<Longrightarrow> length d = 4 \<Longrightarrow> validateWIF_compare [0, 1, 2, 3] c d \<longleftrightarrow> c = d"
  by (auto simp: list_eq_iff_nth_eq less_Suc_eq numeral_eq_Suc)

lemma validateWIF_iff:
  "validateWIF wif =
     (case decodeBase58 wif of
        Inl e \<Rightarrow> False
      | Inr decoded \<Rightarrow>
          length decoded = 38 \<and> decoded ! 0 = 0x80 \<and> decoded ! 33 = 0x01 \<and>
          drop 34 decoded = take 4 (doubleSha256 (take 34 decoded)))"
proof (cases "decodeBase58 wif")
  case (Inl e)
  then show ?thesis
    by (simp add: validateWIF_def validateWIF_try_def)
next
  case (Inr decoded)
  show ?thesis
  proof (cases "length decoded = 38")
    case False
    with Inr show ?thesis
      by (simp add: validateWIF_def validateWIF_try_def)
  next
    case True
    then have "validateWIF_compare [0, 1, 2, 3] (drop 34 decoded)
        (take 4 (doubleSha256 (take 34 decoded))) \<longleftrightarrow>
        drop 34 decoded = take 4 (doubleSha256 (take 34 decoded))"
      by (intro validateWIF_compare_eq) (simp_all add: length_doubleSha256)
    with Inr True show ?thesis
      by (simp add: validateWIF_def validateWIF_try_def Let_def)
  qed
qed

lemma wifFromPrivKey_eq:
  assumes "length secret = 32"
  shows "wifFromPrivKey secret = Inr (encodeBase58 (spec_KeyBlob secret))"
proof -
  have p: "u8_set ((replicate 34 0)[0 := 0x80]) secret 1 = Inr (0x80 # secret @ [0])"
    using assms by (simp add: u8_set_def numeral_eq_Suc)
  have q: "(0x80 # secret @ [0 :: byte])[33 := 0x01] = 0x80 # secret @ [0x01]"
    using assms by (simp add: numeral_eq_Suc list_update_append)
  have l: "length (0x80 # secret @ [0x01 :: byte]) = 34"
    using assms by simp
  show ?thesis
    unfolding wifFromPrivKey_def Let_def p q sum.case spec_KeyBlob_def
    using l by (simp add: u8_set_def length_doubleSha256)
qed

lemma validateWIF_spec_KeyBlob:
  assumes "length secret = 32"
  shows "validateWIF (encodeBase58 (spec_KeyBlob secret))"
proof -
  have "(0x80 # secret @ [0x01 :: byte]) ! 33 = 0x01"
    using assms by (simp add: nth_append numeral_eq_Suc)
  then show ?thesis
    using assms
    by (simp add: validateWIF_iff decodeBase58_encodeBase58 spec_KeyBlob_def
        length_doubleSha256 nth_append)
qed

lemma secret_of_spec_KeyBlob:
  "length secret = 32 \<Longrightarrow> take 32 (drop 1 (spec_KeyBlob secret)) = secret"
  by (simp add: spec_KeyBlob_def)

lemma deriveAddressFromPrivKey_eq:
  "deriveAddressFromPrivKey privKey = Inr (encodeBase58 (spec_IdentityBlob privKey))"
proof -
  let ?h = "take 20 (sha256 (sha256 privKey))"
  have h: "length ?h = 20"
    by (simp add: length_sha256)
  have p: "u8_set ((replicate 21 0)[0 := 0x00]) ?h 1 = Inr (0x00 # ?h)"
    using h by (simp add: u8_set_def numeral_eq_Suc)
  show ?thesis
    unfolding deriveAddressFromPrivKey_def Let_def p sum.case spec_IdentityBlob_def
    using h by (simp add: u8_set_def length_doubleSha256)
qed

lemma length_spec_IdentityBlob: "length (spec_IdentityBlob privKey) = 25"
  by (simp add: spec_IdentityBlob_def length_sha256 length_doubleSha256)

lemma length_spec_KeyBlob: "length secret = 32 \<Longrightarrow> length (spec_KeyBlob secret) = 38"
  by (simp add: spec_KeyBlob_def length_doubleSha256)

lemma encodeBase58_inj: "encodeBase58 a = encodeBase58 b \<Longrightarrow> a = b"
  by (metis decodeBase58_encodeBase58 sum.inject(2))

section \<open>Hexadecimal rendering\<close>

lemma digit_char_0: "digit_char 0 = of_nat (of_char CHR ''0'')"
  by (simp add: digit_char_def str_def)

lemma spec_hex_fixed_0: "spec_hex_fixed k 0 = replicate k (digit_char 0)"
  by (induction k) (simp_all add: replicate_append_same)

lemma digits_radix_small:
  "\<not> (2 \<le> r \<and> r \<le> n) \<Longrightarrow> digits_radix r n acc = digit_char n # acc"
  by (subst digits_radix.simps) auto

lemma digits_radix_big:
  "2 \<le> r \<Longrightarrow> r \<le> n \<Longrightarrow>
   digits_radix r n acc = digits_radix r (n div r) (digit_char (n mod r) # acc)"
  by (subst digits_radix.simps) simp

lemma digits_radix_append: "digits_radix r n acc = digits_radix r n [] @ acc"
proof (induction "nat n" arbitrary: n acc rule: less_induct)
  case less
  show ?case
  proof (cases "2 \<le> r \<and> r \<le> n")
    case False
    then show ?thesis
      by (simp add: digits_radix_small)
  next
    case True
    then have lt: "nat (n div r) < nat n"
      by (simp add: int_div_less_self)
    let ?d = "digit_char (n mod r)"
    have "digits_radix r n acc = digits_radix r (n div r) [] @ ?d # acc"
      using True less [OF lt, of "?d # acc"] by (simp add: digits_radix_big)
    moreover have "digits_radix r n [] = digits_radix r (n div r) [] @ [?d]"
      using True less [OF lt, of "[?d]"] by (simp add: digits_radix_big)
    ultimately show ?thesis
      by simp
  qed
qed

lemma padStart_hex:
  "0 < k \<Longrightarrow> 0 \<le> n \<Longrightarrow> n < 16 ^ k \<Longrightarrow>
   padStart k (digit_char 0) (int_toString 16 n) = spec_hex_fixed k n"
proof (induction k arbitrary: n)
  case 0
  then show ?case by simp
next
  case (Suc k)
  show ?case
  proof (cases "n < 16")
    case True
    then have "digits_radix 16 n [] = [digit_char n]"
      by (simp add: digits_radix_small)
    moreover have "n div 16 = 0" "n mod 16 = n"
      using True Suc.prems by simp_all
    ultimately show ?thesis
      using Suc.prems
      by (simp add: padStart_def int_toString_def spec_hex_fixed_0)
  next
    case False
    then have k: "0 < k"
      using Suc.prems by (cases k) simp_all
    have "n < 16 * 16 ^ k"
      using Suc.prems by simp
    then have "n div 16 < 16 ^ k"
      by linarith
    then have n16: "0 \<le> n div 16" "n div 16 < 16 ^ k"
      using Suc.prems by (simp_all add: pos_imp_zdiv_nonneg_iff)
    have d: "digits_radix 16 n [] = digits_radix 16 (n div 16) [] @ [digit_char (n mod 16)]"
      using False digits_radix_append [of 16 "n div 16" "[digit_char (n mod 16)]"]
      by (simp add: digits_radix_big)
    have "padStart k (digit_char 0) (digits_radix 16 (n div 16) []) = spec_hex_fixed k (n div 16)"
      using Suc.IH [OF k n16] n16 by (simp add: int_toString_def)
    then show ?thesis
      using Suc.prems by (simp add: padStart_def int_toString_def d)
  qed
qed

lemma hex_byte_eq: "hex_byte b = spec_hex_fixed 2 (uint b)"
proof -
  have "uint b < 16 ^ 2"
    using uint_bounded [of b] by simp
  then show ?thesis
    unfolding hex_byte_def digit_char_0 [symmetric]
    by (intro padStart_hex) simp_all
qed

lemma hex_bytes_eq: "hex_bytes bs = spec_hex bs"
proof -
  have "hex_byte = (\<lambda>b. spec_hex_fixed 2 (uint b))"
    by (rule ext) (rule hex_byte_eq)
  then show ?thesis
    by (simp add: hex_bytes_def spec_hex_def)
qed

lemma length_spec_hex_fixed: "length (spec_hex_fixed k n) = k"
  by (induction k arbitrary: n) simp_all

lemma length_hex_bytes: "length (hex_bytes bs) = 2 * length bs"
  by (induction bs) (simp_all add: hex_bytes_def hex_byte_eq length_spec_hex_fixed)

lemma foldl_hex_byte: "foldl (\<lambda>s b. s @ hex_byte b) acc bs = acc @ hex_bytes bs"
  by (induction bs arbitrary: acc) (simp_all add: hex_bytes_def)

section \<open>Validation, derivation and signing\<close>

lemma validateWIF_decoded:
  assumes "validateWIF wif"
  obtains decoded where "decodeBase58 wif = Inr decoded" "length decoded = 38"
    "decoded ! 0 = 0x80" "decoded ! 33 = 0x01"
    "drop 34 decoded = take 4 (doubleSha256 (take 34 decoded))"
  using assms unfolding validateWIF_iff by (cases "decodeBase58 wif") auto

lemma not_validateWIF_errors:
  assumes "\<not> validateWIF wif"
  shows "deriveAddressFromWIF wif = Inl InvalidWIF"
    and "signSequestrationTx now wif amount destination = Inl InvalidWIFSigningRejected"
  using assms by (simp_all add: deriveAddressFromWIF_def signSequestrationTx_def)

lemma deriveAddressFromWIF_valid:
  assumes "validateWIF wif" "decodeBase58 wif = Inr decoded"
  shows "deriveAddressFromWIF wif = Inr (encodeBase58 (spec_IdentityBlob (take 32 (drop 1 decoded))))"
  using assms by (simp add: deriveAddressFromWIF_def deriveAddressFromPrivKey_eq)

lemma signSequestrationTx_valid:
  assumes "validateWIF wif"
  obtains decoded tx where
    "decodeBase58 wif = Inr decoded"
    "signSequestrationTx now wif amount destination = Inr tx"
    "signature tx = hex_bytes (hmac_sha256 (take 32 (drop 1 decoded))
       (utf8 (amount_text amount @ str '':'' @ destination @ str '':'' @ int_toString 10 now)))"
    "raw tx = str ''0200000001'' @ take 64 (signature tx) @ str ''00000000ffffffff01'' @
       padStart 16 (digit_char 0) (floored_toString16 (amount_floor amount)) @
       str ''1976a914'' @ take 40 destination @ str ''88ac00000000''"
    "txid tx = hex_bytes (rev (doubleSha256 (utf8 (raw tx))))"
proof -
  from assms obtain decoded where d: "decodeBase58 wif = Inr decoded" "length decoded = 38"
    by (rule validateWIF_decoded)
  then have k: "importKey (take 32 (drop 1 decoded)) = Inr (take 32 (drop 1 decoded))"
    by (simp add: importKey_def)
  define S where "S = hex_bytes (hmac_sha256 (take 32 (drop 1 decoded))
       (utf8 (amount_text amount @ str '':'' @ destination @ str '':'' @ int_toString 10 now)))"
  define R where "R = str ''0200000001'' @ take 64 S @ str ''00000000ffffffff01'' @
       padStart 16 (digit_char 0) (floored_toString16 (amount_floor amount)) @
       str ''1976a914'' @ take 40 destination @ str ''88ac00000000''"
  define tx where "tx = \<lparr>txid = hex_bytes (rev (doubleSha256 (utf8 R))), raw = R, signature = S\<rparr>"
  have "signSequestrationTx now wif amount destination = Inr tx"
    unfolding signSequestrationTx_def Let_def d(1) sum.case k substring0_def foldl_hex_byte
      tx_def R_def S_def digit_char_0
    using assms by simp
  moreover have "signature tx = S" "raw tx = R" "txid tx = hex_bytes (rev (doubleSha256 (utf8 R)))"
    by (simp_all add: tx_def)
  ultimately show thesis
    using d(1) that [of decoded tx] unfolding S_def R_def by simp
qed

lemma length_signature:
  "length (hex_bytes (hmac_sha256 key data)) = 64"
  by (simp add: length_hex_bytes hmac_sha256_def Let_def length_sha256)

section \<open>The logged functions\<close>

lemma doubleSha256_traced_eq:
  "doubleSha256_traced data log =
     (doubleSha256 data, log @ [Digest data, Digest (sha256 data)])"
  by (simp add: doubleSha256_traced_def digest_traced_def doubleSha256_def)

lemma validateWIF_traced_fst: "fst (validateWIF_traced wif log) = validateWIF wif"
  by (simp add: validateWIF_traced_def validateWIF_def validateWIF_try_def
      doubleSha256_traced_eq Let_def split: sum.split)

lemma validateWIF_traced_snd:
  "snd (validateWIF_traced wif log) =
     log @
     (case decodeBase58 wif of
        Inl e \<Rightarrow> []
      | Inr decoded \<Rightarrow>
          if length decoded = 38 \<and> decoded ! 0 = 0x80 \<and> decoded ! 33 = 0x01
          then [Digest (take 34 decoded), Digest (sha256 (take 34 decoded))]
          else [])"
  by (simp add: validateWIF_traced_def doubleSha256_traced_eq Let_def split: sum.split)

lemma validateWIF_traced_eq:
  "validateWIF_traced wif log = (validateWIF wif, snd (validateWIF_traced wif log))"
  using validateWIF_traced_fst [of wif log] by (simp add: prod_eq_iff)

lemma deriveAddressFromPrivKey_traced_fst:
  "fst (deriveAddressFromPrivKey_traced privKey log) = deriveAddressFromPrivKey privKey"
  by (simp add: deriveAddressFromPrivKey_traced_def deriveAddressFromPrivKey_def
      digest_traced_def doubleSha256_traced_eq Let_def split: sum.split)

lemma deriveAddressFromWIF_traced_fst:
  "fst (deriveAddressFromWIF_traced wif log) = deriveAddressFromWIF wif"
  unfolding deriveAddressFromWIF_traced_def deriveAddressFromWIF_def
  by (subst validateWIF_traced_eq)
    (simp add: Let_def deriveAddressFromPrivKey_traced_fst split: sum.split)

lemma signSequestrationTx_traced_fst:
  "fst (signSequestrationTx_traced now wif amount destination log) =
     signSequestrationTx now wif amount destination"
  unfolding signSequestrationTx_traced_def signSequestrationTx_def
  by (subst validateWIF_traced_eq)
    (simp add: Let_def doubleSha256_traced_eq split: sum.split)

lemma invalid_key_traced:
  assumes "\<not> validateWIF wif"
  shows "deriveAddressFromWIF_traced wif log =
      (Inl InvalidWIF, snd (validateWIF_traced wif log))"
    and "signSequestrationTx_traced now wif amount destination log =
      (Inl InvalidWIFSigningRejected, snd (validateWIF_traced wif log))"
  unfolding deriveAddressFromWIF_traced_def signSequestrationTx_traced_def
  by (subst validateWIF_traced_eq, simp add: assms)+

section \<open>Computed digests\<close>

text \<open>
  Digests of concrete inputs, computed in the logic: the FIPS 180-4 test vector
  \<^verbatim>\<open>"abc"\<close>, test case 2 of RFC 4231 for the HMAC, the key payload of the all-zero secret, and the digests along both seed
  derivations for the empty seed.
\<close>

lemma sha256_abc:
  "sha256 (utf8 (str ''abc'')) =
     [0xba, 0x78, 0x16, 0xbf, 0x8f, 0x01, 0xcf, 0xea, 0x41, 0x41, 0x40, 0xde, 0x5d, 0xae, 0x22, 0x23,
      0xb0, 0x03, 0x61, 0xa3, 0x96, 0x17, 0x7a, 0x9c, 0xb4, 0x10, 0xff, 0x61, 0xf2, 0x00, 0x15, 0xad]"
  by code_simp

lemma hmac_sha256_rfc4231_case2:
  "hmac_sha256 (utf8 (str ''Jefe'')) (utf8 (str ''what do ya want for nothing?'')) =
     [0x5b, 0xdc, 0xc1, 0x46, 0xbf, 0x60, 0x75, 0x4e, 0x6a, 0x04, 0x24, 0x26, 0x08, 0x95, 0x75, 0xc7,
      0x5a, 0x00, 0x3f, 0x08, 0x9d, 0x27, 0x39, 0x83, 0x9d, 0xec, 0x58, 0xb9, 0x64, 0xec, 0x38, 0x43]"
  by code_simp

lemma zero_key_digest1:
  "sha256 (0x80 # replicate 32 0 @ [0x01]) =
     [0xf5, 0x8c, 0xac, 0xe0, 0x41, 0x42, 0xd9, 0x52, 0x6a, 0xa4, 0x82, 0xb6, 0x5e, 0x31, 0x5e, 0x3c,
      0x0b, 0xf4, 0x1f, 0x74, 0x44, 0x06, 0x99, 0x06, 0x1b, 0x6e, 0x37, 0x2b, 0xf1, 0x0c, 0x88, 0xdf]"
  by code_simp

lemma zero_key_digest2:
  "sha256
     [0xf5, 0x8c, 0xac, 0xe0, 0x41, 0x42, 0xd9, 0x52, 0x6a, 0xa4, 0x82, 0xb6, 0x5e, 0x31, 0x5e, 0x3c,
      0x0b, 0xf4, 0x1f, 0x74, 0x44, 0x06, 0x99, 0x06, 0x1b, 0x6e, 0x37, 0x2b, 0xf1, 0x0c, 0x88, 0xdf] =
     [0x69, 0xf4, 0x36, 0xde, 0x87, 0x36, 0x25, 0x89, 0xb8, 0x99, 0x43, 0xc1, 0x55, 0x4c, 0x53, 0xc4,
      0xce, 0xe3, 0x7d, 0x1c, 0x95, 0x15, 0x52, 0xef, 0xf7, 0xe2, 0xbc, 0xa8, 0xb3, 0x06, 0x89, 0x67]"
  by code_simp

lemma veritas_secret:
  "sha256 (utf8 ([] @ str ''VERITAS_PSI_STOCHASTIC_FLUX_958.312108'')) =
     [0x97, 0x12, 0x93, 0x79, 0xbe, 0xbb, 0xca, 0x5a, 0x92, 0x5d, 0xe5, 0x43, 0x08, 0xf3, 0xb7, 0x75,
      0x5d, 0x63, 0xb6, 0xa9, 0x5f, 0xd7, 0xd9, 0x05, 0x59, 0xf2, 0xf2, 0x06, 0x82, 0xfa, 0xf9, 0xd9]"
  by code_simp

lemma veritas_pubKey:
  "sha256
     [0x97, 0x12, 0x93, 0x79, 0xbe, 0xbb, 0xca, 0x5a, 0x92, 0x5d, 0xe5, 0x43, 0x08, 0xf3, 0xb7, 0x75,
      0x5d, 0x63, 0xb6, 0xa9, 0x5f, 0xd7, 0xd9, 0x05, 0x59, 0xf2, 0xf2, 0x06, 0x82, 0xfa, 0xf9, 0xd9] =
     [0xda, 0xac, 0x92, 0xf2, 0x26, 0x3f, 0x23, 0xdc, 0xd8, 0xa8, 0xc6, 0x1a, 0xf2, 0x8d, 0x34, 0x04,
      0x4e, 0xa6, 0x23, 0x11, 0x56, 0x1e, 0x46, 0xd4, 0x04, 0x1e, 0x31, 0xbe, 0x4a, 0x11, 0x75, 0x8f]"
  by code_simp

lemma veritas_hash:
  "sha256
     [0xda, 0xac, 0x92, 0xf2, 0x26, 0x3f, 0x23, 0xdc, 0xd8, 0xa8, 0xc6, 0x1a, 0xf2, 0x8d, 0x34, 0x04,
      0x4e, 0xa6, 0x23, 0x11, 0x56, 0x1e, 0x46, 0xd4, 0x04, 0x1e, 0x31, 0xbe, 0x4a, 0x11, 0x75, 0x8f] =
     [0x1f, 0x85, 0x49, 0x45, 0x96, 0x2e, 0xed, 0xf7, 0x54, 0x7f, 0x8a, 0x13, 0xd5, 0x32, 0xb8, 0x03,
      0x48, 0x16, 0x53, 0xbc, 0x20, 0x04, 0x02, 0x4a, 0x6f, 0xa1, 0xd8, 0x29, 0xef, 0x51, 0xbe, 0x18]"
  by code_simp

lemma veritas_check1:
  "sha256 (0x00 # take 20
     [0x1f, 0x85, 0x49, 0x45, 0x96, 0x2e, 0xed, 0xf7, 0x54, 0x7f, 0x8a, 0x13, 0xd5, 0x32, 0xb8, 0x03,
      0x48, 0x16, 0x53, 0xbc, 0x20, 0x04, 0x02, 0x4a, 0x6f, 0xa1, 0xd8, 0x29, 0xef, 0x51, 0xbe, 0x18]) =
     [0x0a, 0xee, 0x0f, 0xc2, 0x23, 0x23, 0x08, 0x1e, 0x81, 0xdd, 0xa6, 0x88, 0x87, 0x28, 0x9b, 0x8f,
      0xf9, 0xeb, 0xf7, 0x61, 0x0a, 0x65, 0x36, 0x02, 0x1b, 0x7c, 0xa4, 0x24, 0x54, 0x26, 0xab, 0x47]"
  by code_simp

lemma veritas_check2:
  "sha256
     [0x0a, 0xee, 0x0f, 0xc2, 0x23, 0x23, 0x08, 0x1e, 0x81, 0xdd, 0xa6, 0x88, 0x87, 0x28, 0x9b, 0x8f,
      0xf9, 0xeb, 0xf7, 0x61, 0x0a, 0x65, 0x36, 0x02, 0x1b, 0x7c, 0xa4, 0x24, 0x54, 0x26, 0xab, 0x47] =
     [0x2c, 0x13, 0xca, 0x2a, 0x2e, 0xd1, 0x59, 0x64, 0x7a, 0x41, 0xa3, 0x11, 0x05, 0x4b, 0xca, 0xbb,
      0x63, 0x36, 0x95, 0x94, 0x6b, 0xe8, 0x49, 0xcb, 0xb8, 0xc3, 0x91, 0x93, 0x4e, 0x25, 0xe4, 0xfe]"
  by code_simp

lemma wif_seed_secret:
  "sha256 (utf8 ([] @ str ''SEC_KEY_DERIVATION_ACTIVE_UNTRAMMELLED'')) =
     [0xf6, 0x06, 0x66, 0x3c, 0xe2, 0xee, 0x19, 0x1d, 0x23, 0x1a, 0x9d, 0x32, 0xdd, 0xd2, 0xdb, 0x7d,
      0xb9, 0x2c, 0x50, 0xe4, 0x4c, 0x31, 0xc4, 0xc8, 0xa7, 0x80, 0x38, 0x5c, 0x03, 0x14, 0xaa, 0x9c]"
  by code_simp

lemma wif_seed_pubKey:
  "sha256
     [0xf6, 0x06, 0x66, 0x3c, 0xe2, 0xee, 0x19, 0x1d, 0x23, 0x1a, 0x9d, 0x32, 0xdd, 0xd2, 0xdb, 0x7d,
      0xb9, 0x2c, 0x50, 0xe4, 0x4c, 0x31, 0xc4, 0xc8, 0xa7, 0x80, 0x38, 0x5c, 0x03, 0x14, 0xaa, 0x9c] =
     [0xdf, 0x74, 0x17, 0x4e, 0x0d, 0xe6, 0x9b, 0x68, 0xc4, 0xc0, 0x4a, 0xd4, 0x48, 0x9f, 0x89, 0x1e,
      0x60, 0x79, 0xe1, 0x1e, 0x49, 0xe8, 0x27, 0xb0, 0xba, 0xbb, 0x11, 0xfa, 0xbe, 0x55, 0x99, 0xfd]"
  by code_simp

lemma wif_seed_hash:
  "sha256
     [0xdf, 0x74, 0x17, 0x4e, 0x0d, 0xe6, 0x9b, 0x68, 0xc4, 0xc0, 0x4a, 0xd4, 0x48, 0x9f, 0x89, 0x1e,
      0x60, 0x79, 0xe1, 0x1e, 0x49, 0xe8, 0x27, 0xb0, 0xba, 0xbb, 0x11, 0xfa, 0xbe, 0x55, 0x99, 0xfd] =
     [0x0a, 0x4d, 0x29, 0xec, 0xa3, 0xbe, 0xe8, 0x80, 0x48, 0x6e, 0xcb, 0x99, 0x9c, 0xf3, 0x05, 0xb2,
      0x85, 0xd2, 0xbe, 0x1c, 0x3f, 0xf4, 0xa9, 0x2d, 0x81, 0xbe, 0x1b, 0xb7, 0x54, 0x8f, 0xee, 0x6d]"
  by code_simp

lemma wif_seed_check1:
  "sha256 (0x00 # take 20
     [0x0a, 0x4d, 0x29, 0xec, 0xa3, 0xbe, 0xe8, 0x80, 0x48, 0x6e, 0xcb, 0x99, 0x9c, 0xf3, 0x05, 0xb2,
      0x85, 0xd2, 0xbe, 0x1c, 0x3f, 0xf4, 0xa9, 0x2d, 0x81, 0xbe, 0x1b, 0xb7, 0x54, 0x8f, 0xee, 0x6d]) =
     [0x9e, 0xc9, 0x1e, 0x2c, 0xf9, 0x98, 0x29, 0x1d, 0x5e, 0xda, 0x9c, 0x15, 0x2d, 0xa7, 0xc7, 0xaf,
      0xd0, 0x03, 0x21, 0x90, 0x7c, 0x59, 0xec, 0xf1, 0x65, 0xa1, 0xc2, 0xec, 0xaa, 0x3f, 0xa4, 0x80]"
  by code_simp

lemma wif_seed_check2:
  "sha256
     [0x9e, 0xc9, 0x1e, 0x2c, 0xf9, 0x98, 0x29, 0x1d, 0x5e, 0xda, 0x9c, 0x15, 0x2d, 0xa7, 0xc7, 0xaf,
      0xd0, 0x03, 0x21, 0x90, 0x7c, 0x59, 0xec, 0xf1, 0x65, 0xa1, 0xc2, 0xec, 0xaa, 0x3f, 0xa4, 0x80] =
     [0x91, 0xaf, 0x0a, 0x24, 0xdb, 0x78, 0xd6, 0xc0, 0xe1, 0x1e, 0xa8, 0x5b, 0x23, 0x98, 0xd2, 0x66,
      0x70, 0x96, 0xf5, 0x7c, 0xb2, 0xa3, 0xaa, 0x81, 0x41, 0xd3, 0xe3, 0xe6, 0xce, 0x01, 0x9d, 0x12]"
  by code_simp

lemma wif_seed_key_check1:
  "sha256 (0x80 #
     [0xf6, 0x06, 0x66, 0x3c, 0xe2, 0xee, 0x19, 0x1d, 0x23, 0x1a, 0x9d, 0x32, 0xdd, 0xd2, 0xdb, 0x7d,
      0xb9, 0x2c, 0x50, 0xe4, 0x4c, 0x31, 0xc4, 0xc8, 0xa7, 0x80, 0x38, 0x5c, 0x03, 0x14, 0xaa, 0x9c] @ [0x01]) =
     [0x09, 0x80, 0xcc, 0x05, 0x24, 0x2e, 0x79, 0xca, 0xda, 0x12, 0x28, 0x09, 0x77, 0x55, 0x51, 0x53,
      0x1f, 0x7d, 0xf3, 0x31, 0x32, 0xe8, 0x7c, 0xe9, 0x94, 0xe1, 0xa6, 0x3d, 0x35, 0x57, 0x2b, 0x5f]"
  by code_simp

lemma wif_seed_key_check2:
  "sha256
     [0x09, 0x80, 0xcc, 0x05, 0x24, 0x2e, 0x79, 0xca, 0xda, 0x12, 0x28, 0x09, 0x77, 0x55, 0x51, 0x53,
      0x1f, 0x7d, 0xf3, 0x31, 0x32, 0xe8, 0x7c, 0xe9, 0x94, 0xe1, 0xa6, 0x3d, 0x35, 0x57, 0x2b, 0x5f] =
     [0x63, 0x01, 0x27, 0x89, 0x5f, 0x32, 0x8d, 0x3c, 0xd9, 0x3b, 0x84, 0xc5, 0xe1, 0x53, 0x79, 0x18,
      0x31, 0xbd, 0xeb, 0x0a, 0x4a, 0x42, 0xea, 0xb9, 0x94, 0x80, 0xe2, 0x5e, 0x9c, 0x11, 0xff, 0x85]"
  by code_simp

section \<open>Concrete keys and addresses\<close>

lemma zero_key_blob:
  "spec_KeyBlob (replicate 32 0) =
     [0x80, 0x00, 0x00, 0x00, 0x00, 0x00, 0x00, 0x00, 0x00, 0x00, 0x00, 0x00, 0x00, 0x00, 0x00, 0x00,
      0x00, 0x00, 0x00, 0x00, 0x00, 0x00, 0x00, 0x00, 0x00, 0x00, 0x00, 0x00, 0x00, 0x00, 0x00, 0x00,
      0x00, 0x01, 0x69, 0xf4, 0x36, 0xde]"
  unfolding spec_KeyBlob_def doubleSha256_def Let_def zero_key_digest1 zero_key_digest2
  by code_simp

lemma zero_key_wif:
  "encodeBase58 (spec_KeyBlob (replicate 32 0)) = str ''KwDiBf89QgGbjEhKnhXJuH7LrciVrZi3qYjgd9M7rFU73Nd2Mcv1''"
  unfolding zero_key_blob by code_simp

lemma zero_key_valid: "validateWIF (str ''KwDiBf89QgGbjEhKnhXJuH7LrciVrZi3qYjgd9M7rFU73Nd2Mcv1'')"
  using validateWIF_spec_KeyBlob [of "replicate 32 0"] by (simp add: zero_key_wif)

lemma altered_key_decoded:
  "decodeBase58 (str ''KwDiBf89QgGbjEhKnhXJuH7LrciVrZi3qYjgd9M7rFU73Nd2Mcv2'') =
     Inr [0x80, 0x00, 0x00, 0x00, 0x00, 0x00, 0x00, 0x00, 0x00, 0x00, 0x00, 0x00, 0x00, 0x00, 0x00, 0x00,
      0x00, 0x00, 0x00, 0x00, 0x00, 0x00, 0x00, 0x00, 0x00, 0x00, 0x00, 0x00, 0x00, 0x00, 0x00, 0x00,
      0x00, 0x01, 0x69, 0xf4, 0x36, 0xdf]"
  by code_simp

lemma altered_key_payload:
  "take 34
     [0x80, 0x00, 0x00, 0x00, 0x00, 0x00, 0x00, 0x00, 0x00, 0x00, 0x00, 0x00, 0x00, 0x00, 0x00, 0x00,
      0x00, 0x00, 0x00, 0x00, 0x00, 0x00, 0x00, 0x00, 0x00, 0x00, 0x00, 0x00, 0x00, 0x00, 0x00, 0x00,
      0x00, 0x01, 0x69, 0xf4, 0x36, 0xdf] =
   (0x80 :: byte) # replicate 32 0 @ [0x01]"
  by code_simp

lemma altered_key_invalid: "\<not> validateWIF (str ''KwDiBf89QgGbjEhKnhXJuH7LrciVrZi3qYjgd9M7rFU73Nd2Mcv2'')"
  unfolding validateWIF_iff altered_key_decoded sum.case altered_key_payload doubleSha256_def
    Let_def zero_key_digest1 zero_key_digest2
  by simp

lemma veritas_blob:
  "spec_IdentityBlob (sha256 (utf8 ([] @ str ''VERITAS_PSI_STOCHASTIC_FLUX_958.312108''))) =
     [0x00, 0x1f, 0x85, 0x49, 0x45, 0x96, 0x2e, 0xed, 0xf7, 0x54, 0x7f, 0x8a, 0x13, 0xd5, 0x32, 0xb8,
      0x03, 0x48, 0x16, 0x53, 0xbc, 0x2c, 0x13, 0xca, 0x2a]"
  unfolding spec_IdentityBlob_def doubleSha256_def Let_def veritas_secret veritas_pubKey
    veritas_hash veritas_check1 veritas_check2
  by code_simp

lemma wif_seed_blob:
  "spec_IdentityBlob (sha256 (utf8 ([] @ str ''SEC_KEY_DERIVATION_ACTIVE_UNTRAMMELLED''))) =
     [0x00, 0x0a, 0x4d, 0x29, 0xec, 0xa3, 0xbe, 0xe8, 0x80, 0x48, 0x6e, 0xcb, 0x99, 0x9c, 0xf3, 0x05,
      0xb2, 0x85, 0xd2, 0xbe, 0x1c, 0x91, 0xaf, 0x0a, 0x24]"
  unfolding spec_IdentityBlob_def doubleSha256_def Let_def wif_seed_secret wif_seed_pubKey
    wif_seed_hash wif_seed_check1 wif_seed_check2
  by code_simp

lemma wif_seed_key_blob:
  "spec_KeyBlob (sha256 (utf8 ([] @ str ''SEC_KEY_DERIVATION_ACTIVE_UNTRAMMELLED''))) =
     [0x80, 0xf6, 0x06, 0x66, 0x3c, 0xe2, 0xee, 0x19, 0x1d, 0x23, 0x1a, 0x9d, 0x32, 0xdd, 0xd2, 0xdb,
      0x7d, 0xb9, 0x2c, 0x50, 0xe4, 0x4c, 0x31, 0xc4, 0xc8, 0xa7, 0x80, 0x38, 0x5c, 0x03, 0x14, 0xaa,
      0x9c, 0x01, 0x63, 0x01, 0x27, 0x89]"
  unfolding spec_KeyBlob_def doubleSha256_def Let_def wif_seed_secret wif_seed_key_check1
    wif_seed_key_check2
  by code_simp

lemma veritas_address:
  "encodeBase58
     [0x00, 0x1f, 0x85, 0x49, 0x45, 0x96, 0x2e, 0xed, 0xf7, 0x54, 0x7f, 0x8a, 0x13, 0xd5, 0x32, 0xb8,
      0x03, 0x48, 0x16, 0x53, 0xbc, 0x2c, 0x13, 0xca, 0x2a] =
   str ''13sfcqTiXvkgLgRTrUYpvAUdMTdo6kqGw3''"
  by code_simp

lemma wif_seed_address:
  "encodeBase58
     [0x00, 0x0a, 0x4d, 0x29, 0xec, 0xa3, 0xbe, 0xe8, 0x80, 0x48, 0x6e, 0xcb, 0x99, 0x9c, 0xf3, 0x05,
      0xb2, 0x85, 0xd2, 0xbe, 0x1c, 0x91, 0xaf, 0x0a, 0x24] =
   str ''1wUCMMCpA6R7N2BcDXa3ajoudpbeqajkw''"
  by code_simp

lemma wif_seed_key:
  "encodeBase58
     [0x80, 0xf6, 0x06, 0x66, 0x3c, 0xe2, 0xee, 0x19, 0x1d, 0x23, 0x1a, 0x9d, 0x32, 0xdd, 0xd2, 0xdb,
      0x7d, 0xb9, 0x2c, 0x50, 0xe4, 0x4c, 0x31, 0xc4, 0xc8, 0xa7, 0x80, 0x38, 0x5c, 0x03, 0x14, 0xaa,
      0x9c, 0x01, 0x63, 0x01, 0x27, 0x89] =
   str ''L5Tx8X2rwusDJXCooybGmNgXzMHQPnLtUGHTpuC2MeT5tJYoUWFJ''"
  by code_simp

section \<open>Shared consequences\<close>

lemma deriveAddressFromWIF_spec_KeyBlob:
  assumes "length secret = 32"
  shows "deriveAddressFromWIF (encodeBase58 (spec_KeyBlob secret)) =
     Inr (encodeBase58 (spec_IdentityBlob secret))"
proof -
  have "deriveAddressFromWIF (encodeBase58 (spec_KeyBlob secret)) =
      Inr (encodeBase58 (spec_IdentityBlob (take 32 (drop 1 (spec_KeyBlob secret)))))"
    by (rule deriveAddressFromWIF_valid [OF validateWIF_spec_KeyBlob [OF assms]
          decodeBase58_encodeBase58])
  then show ?thesis
    unfolding secret_of_spec_KeyBlob [OF assms] .
qed

lemma encodeBase58_acc_zeros: "encodeBase58_acc (replicate n 0) = 0"
  by (simp add: encodeBase58_acc_zero_iff)

lemma encodeBase58_zeros_only: "encodeBase58 (replicate n 0) = replicate n (ALPHABET ! 0)"
  by (simp add: encodeBase58_shape encodeBase58_acc_zeros encodeBase58_digits.simps)

lemma signSequestrationTx_Inr_valid:
  "signSequestrationTx now wif amount destination = Inr tx \<Longrightarrow> validateWIF wif"
  by (rule ccontr) (simp add: not_validateWIF_errors)

lemma invalid_character_decode: "decodeBase58 (str ''0OIl'') = Inl InvalidBase58Character"
  by code_simp

lemma length_padStart: "length (padStart n c s) = max n (length s)"
  by (simp add: padStart_def)

lemma length_str: "length (str s) = length s"
  by (simp add: str_def)

lemma amount_field_150000000:
  "spec_hex_fixed 16 150000000 = str ''0000000008f0d180''"
  by code_simp

lemma amount_field_2e19:
  "padStart 16 (digit_char 0) (floored_toString16 (Integral 20000000000000000000)) =
     str ''1158e460913d00000''"
  by code_simp

lemma drop_template:
  "length a = 10 \<Longrightarrow> length s = 64 \<Longrightarrow> length b = 18 \<Longrightarrow>
   drop 92 (a @ s @ b @ r) = r"
  by simp

lemma digits_radix_length:
  "16 ^ k \<le> n \<Longrightarrow> k < length (digits_radix 16 n [])"
proof (induction k arbitrary: n)
  case 0
  show ?case
    by (subst digits_radix.simps) (simp add: digits_radix_append [of 16 "n div 16" "[d]" for d])
next
  case (Suc k)
  have one: "(1 :: int) \<le> 16 ^ k"
    by simp
  have prod: "(16 :: int) * 16 ^ k \<le> n"
    using Suc.prems by simp
  from one prod have big: "(16 :: int) \<le> n"
    by linarith
  have "(16 * 16 ^ k) div 16 \<le> n div 16"
    using prod by (rule zdiv_mono1) simp
  then have "16 ^ k \<le> n div 16"
    by simp
  from Suc.IH [OF this] show ?case
    using big digits_radix_append [of 16 "n div 16" "[digit_char (n mod 16)]"]
    by (simp add: digits_radix_big)
qed

lemma amount_field_wide:
  assumes "2 ^ 64 \<le> v"
  shows "16 < length (padStart 16 (digit_char 0) (int_toString 16 v))"
proof -
  have "(16 :: int) ^ 16 = 2 ^ 64"
    by simp
  with assms have "16 ^ 16 \<le> v"
    by simp
  then have "16 < length (digits_radix 16 v [])"
    by (rule digits_radix_length)
  moreover have "0 \<le> v"
    using assms by (rule order_trans [rotated]) simp
  ultimately show ?thesis
    by (simp add: padStart_def int_toString_def)
qed

lemma amount_field_exact:
  "0 \<le> v \<Longrightarrow> v < 2 ^ 64 \<Longrightarrow>
   padStart 16 (digit_char 0) (int_toString 16 v) = spec_hex_fixed 16 v"
  using padStart_hex [of 16 v] by simp

lemma floor_1_5:
  "Math_floor (number_times (Double 3 (- 1)) (Double 100000000 0)) = Integral 150000000"
  by code_simp

lemma floor_1em6:
  "Math_floor (number_times (Double 4722366482869645 (- 72)) (Double 100000000 0)) = Integral 100"
  by code_simp

lemma floor_2e11:
  "Math_floor (number_times (Double 200000000000 0) (Double 100000000 0)) =
     Integral 20000000000000000000"
  by code_simp

lemma amount_field_100: "spec_hex_fixed 16 100 = str ''0000000000000064''"
  by code_simp

lemma floor_1e305:
  "padStart 16 (digit_char 0)
     (floored_toString16
       (Math_floor (number_times (Double 5130671001622970 961) (Double 100000000 0)))) =
   str ''00000000Infinity''"
  by code_simp

section \<open>The claims\<close>

text \<open>
  C1 (as amended). The two seed derivations use two different domain tags. For every
  seed, \<^verbatim>\<open>deriveWIF\<close> returns a valid key whose secret is the digest of the seed followed
  by \<^verbatim>\<open>SEC_KEY_DERIVATION_ACTIVE_UNTRAMMELLED\<close>, and \<^verbatim>\<open>deriveAddressFromWIF\<close> of that key
  is the address of that same secret (one key blob, one identity blob);
  \<^verbatim>\<open>generateVeritasAddress\<close> returns the address of the digest of the seed followed by
  \<^verbatim>\<open>VERITAS_PSI_STOCHASTIC_FLUX_958.312108\<close>.
\<close>

theorem seed_derivations:
  "\<exists>wif. deriveWIF seed = Inr wif \<and> validateWIF wif \<and>
     deriveAddressFromWIF wif =
       deriveAddressFromPrivKey
         (sha256 (utf8 (seed @ str ''SEC_KEY_DERIVATION_ACTIVE_UNTRAMMELLED''))) \<and>
     generateVeritasAddress seed =
       deriveAddressFromPrivKey
         (sha256 (utf8 (seed @ str ''VERITAS_PSI_STOCHASTIC_FLUX_958.312108'')))"
proof -
  let ?k = "sha256 (utf8 (seed @ str ''SEC_KEY_DERIVATION_ACTIVE_UNTRAMMELLED''))"
  have k: "length ?k = 32"
    by (rule length_sha256)
  have "deriveWIF seed = Inr (encodeBase58 (spec_KeyBlob ?k))"
    by (simp add: deriveWIF_def wifFromPrivKey_eq [OF k])
  moreover have "validateWIF (encodeBase58 (spec_KeyBlob ?k))"
    by (rule validateWIF_spec_KeyBlob [OF k])
  moreover have "deriveAddressFromWIF (encodeBase58 (spec_KeyBlob ?k)) = deriveAddressFromPrivKey ?k"
    by (simp add: deriveAddressFromWIF_spec_KeyBlob [OF k] deriveAddressFromPrivKey_eq)
  moreover have "generateVeritasAddress seed =
      deriveAddressFromPrivKey
        (sha256 (utf8 (seed @ str ''VERITAS_PSI_STOCHASTIC_FLUX_958.312108'')))"
    by (simp add: generateVeritasAddress_def)
  ultimately show ?thesis
    by blast
qed

text \<open>
  C1 as stated fails at the empty seed: the key derived from it maps to another address
  than the one \<^verbatim>\<open>generateVeritasAddress\<close> derives from it.
\<close>

theorem seed_identity_counterexample:
  "deriveWIF [] = Inr (str ''L5Tx8X2rwusDJXCooybGmNgXzMHQPnLtUGHTpuC2MeT5tJYoUWFJ'') \<and>
   deriveAddressFromWIF (str ''L5Tx8X2rwusDJXCooybGmNgXzMHQPnLtUGHTpuC2MeT5tJYoUWFJ'') =
     Inr (str ''1wUCMMCpA6R7N2BcDXa3ajoudpbeqajkw'') \<and>
   generateVeritasAddress [] = Inr (str ''13sfcqTiXvkgLgRTrUYpvAUdMTdo6kqGw3'') \<and>
   deriveAddressFromWIF (str ''L5Tx8X2rwusDJXCooybGmNgXzMHQPnLtUGHTpuC2MeT5tJYoUWFJ'') \<noteq>
     generateVeritasAddress []"
proof -
  let ?k = "sha256 (utf8 ([] @ str ''SEC_KEY_DERIVATION_ACTIVE_UNTRAMMELLED''))"
  have k: "length ?k = 32"
    by (rule length_sha256)
  have key: "encodeBase58 (spec_KeyBlob ?k) =
      str ''L5Tx8X2rwusDJXCooybGmNgXzMHQPnLtUGHTpuC2MeT5tJYoUWFJ''"
    unfolding wif_seed_key_blob by (rule wif_seed_key)
  have w: "deriveWIF [] = Inr (str ''L5Tx8X2rwusDJXCooybGmNgXzMHQPnLtUGHTpuC2MeT5tJYoUWFJ'')"
    unfolding deriveWIF_def Let_def wifFromPrivKey_eq [OF k] key ..
  have a: "deriveAddressFromWIF (str ''L5Tx8X2rwusDJXCooybGmNgXzMHQPnLtUGHTpuC2MeT5tJYoUWFJ'') =
      Inr (str ''1wUCMMCpA6R7N2BcDXa3ajoudpbeqajkw'')"
    using deriveAddressFromWIF_spec_KeyBlob [OF k]
    unfolding key wif_seed_blob wif_seed_address .
  have g: "generateVeritasAddress [] = Inr (str ''13sfcqTiXvkgLgRTrUYpvAUdMTdo6kqGw3'')"
    unfolding generateVeritasAddress_def Let_def deriveAddressFromPrivKey_eq veritas_blob
      veritas_address ..
  have "str ''1wUCMMCpA6R7N2BcDXa3ajoudpbeqajkw'' \<noteq> str ''13sfcqTiXvkgLgRTrUYpvAUdMTdo6kqGw3''"
    by (simp add: str_def)
  with w a g show ?thesis
    by simp
qed

text \<open>
  C2. For every byte sequence, decoding its Base58 encoding gives the sequence back;
  the empty sequence encodes to the empty string and a sequence of \<open>n\<close> zero bytes to
  \<open>n\<close> times the first character of the alphabet.
\<close>

theorem base58_round_trip:
  "decodeBase58 (encodeBase58 b) = Inr b \<and>
   encodeBase58 [] = [] \<and>
   encodeBase58 (replicate n 0) = replicate n (ALPHABET ! 0) \<and>
   decodeBase58 (replicate n (ALPHABET ! 0)) = Inr (replicate n 0)"
proof -
  have "decodeBase58 (encodeBase58 b) = Inr b"
    by (rule decodeBase58_encodeBase58)
  moreover have "encodeBase58 [] = []"
    using encodeBase58_zeros_only [of 0] by simp
  moreover have z: "encodeBase58 (replicate n 0) = replicate n (ALPHABET ! 0)"
    by (rule encodeBase58_zeros_only)
  moreover have "decodeBase58 (replicate n (ALPHABET ! 0)) = Inr (replicate n 0)"
    using decodeBase58_encodeBase58 [of "replicate n 0"] unfolding z .
  ultimately show ?thesis
    by simp
qed

text \<open>
  C3. \<^verbatim>\<open>validateWIF\<close> returns a boolean for every string and never raises: an exception
  inside the \<^verbatim>\<open>try\<close> block becomes false. It returns false exactly when the string does
  not decode, or the decoded length is not 38, or the first byte is not 0x80, or byte 33
  is not 0x01, or the last four bytes differ from the first four bytes of the double
  digest of the first 34 bytes.
\<close>

theorem validateWIF_false_iff:
  "(validateWIF wif = False) =
     (case decodeBase58 wif of
        Inl e \<Rightarrow> True
      | Inr decoded \<Rightarrow>
          length decoded \<noteq> 38 \<or> decoded ! 0 \<noteq> 0x80 \<or> decoded ! 33 \<noteq> 0x01 \<or>
          drop 34 decoded \<noteq> take 4 (doubleSha256 (take 34 decoded))) \<and>
   (\<forall>e. validateWIF_try wif = Inl e \<longrightarrow> validateWIF wif = False)"
proof
  show "(validateWIF wif = False) =
     (case decodeBase58 wif of
        Inl e \<Rightarrow> True
      | Inr decoded \<Rightarrow>
          length decoded \<noteq> 38 \<or> decoded ! 0 \<noteq> 0x80 \<or> decoded ! 33 \<noteq> 0x01 \<or>
          drop 34 decoded \<noteq> take 4 (doubleSha256 (take 34 decoded)))"
    unfolding validateWIF_iff by (cases "decodeBase58 wif") auto
next
  show "\<forall>e. validateWIF_try wif = Inl e \<longrightarrow> validateWIF wif = False"
    by (simp add: validateWIF_def)
qed

theorem validateWIF_false_iff_witness:
  "validateWIF_try (str ''0OIl'') = Inl InvalidBase58Character \<and>
   validateWIF (str ''0OIl'') = False \<and>
   validateWIF (str ''KwDiBf89QgGbjEhKnhXJuH7LrciVrZi3qYjgd9M7rFU73Nd2Mcv2'') = False \<and>
   validateWIF (str ''KwDiBf89QgGbjEhKnhXJuH7LrciVrZi3qYjgd9M7rFU73Nd2Mcv1'') = True"
proof -
  have t: "validateWIF_try (str ''0OIl'') = Inl InvalidBase58Character"
    by (simp add: validateWIF_try_def invalid_character_decode)
  have "validateWIF (str ''0OIl'') = False"
    using validateWIF_false_iff [of "str ''0OIl''"] t by blast
  moreover have "validateWIF (str ''KwDiBf89QgGbjEhKnhXJuH7LrciVrZi3qYjgd9M7rFU73Nd2Mcv2'') = False"
    using validateWIF_false_iff [of "str ''KwDiBf89QgGbjEhKnhXJuH7LrciVrZi3qYjgd9M7rFU73Nd2Mcv2''"]
      altered_key_invalid by blast
  ultimately show ?thesis
    using t zero_key_valid by simp
qed

text \<open>
  C4. For every 32-byte secret, the body of \<^verbatim>\<open>deriveWIF\<close> returns the Base58 encoding of
  the 38-byte key blob of the specification (0x80, the secret, 0x01, the first four bytes
  of the double digest of these 34 bytes), and \<^verbatim>\<open>validateWIF\<close> accepts that string.
\<close>

theorem built_key_validates:
  assumes "length secret = 32"
  shows "wifFromPrivKey secret = Inr (encodeBase58 (spec_KeyBlob secret)) \<and>
    length (spec_KeyBlob secret) = 38 \<and>
    validateWIF (encodeBase58 (spec_KeyBlob secret)) = True"
proof (intro conjI)
  show "wifFromPrivKey secret = Inr (encodeBase58 (spec_KeyBlob secret))"
    using assms by (rule wifFromPrivKey_eq)
  show "length (spec_KeyBlob secret) = 38"
    using assms by (rule length_spec_KeyBlob)
  show "validateWIF (encodeBase58 (spec_KeyBlob secret)) = True"
    using validateWIF_spec_KeyBlob [OF assms] by simp
qed

text \<open>The all-zero secret: its key is the reference string, and it validates.\<close>

theorem built_key_validates_witness:
  "length (replicate 32 (0 :: byte)) = 32 \<and>
   wifFromPrivKey (replicate 32 0) =
     Inr (str ''KwDiBf89QgGbjEhKnhXJuH7LrciVrZi3qYjgd9M7rFU73Nd2Mcv1'') \<and>
   validateWIF (str ''KwDiBf89QgGbjEhKnhXJuH7LrciVrZi3qYjgd9M7rFU73Nd2Mcv1'') = True"
proof -
  have l: "length (replicate 32 (0 :: byte)) = 32"
    by simp
  from built_key_validates [OF l] show ?thesis
    unfolding zero_key_wif using l by simp
qed

text \<open>
  C5. \<^verbatim>\<open>deriveAddressFromWIF\<close> and \<^verbatim>\<open>signSequestrationTx\<close> raise their invalid-key error
  exactly when \<^verbatim>\<open>validateWIF\<close> returns false. They then return no address and no
  transaction and call the crypto interface no more: the log of the failing call is the
  log of \<^verbatim>\<open>validateWIF\<close> alone, which holds nothing, or the two digests of the checksum
  that validation itself compares. When \<^verbatim>\<open>validateWIF\<close> returns true both return a value.
  The logged functions return what the functions do.
\<close>

theorem invalid_key_errors:
  "(validateWIF wif = False \<longrightarrow>
      deriveAddressFromWIF wif = Inl InvalidWIF \<and>
      signSequestrationTx now wif amount destination = Inl InvalidWIFSigningRejected \<and>
      deriveAddressFromWIF_traced wif log =
        (Inl InvalidWIF, snd (validateWIF_traced wif log)) \<and>
      signSequestrationTx_traced now wif amount destination log =
        (Inl InvalidWIFSigningRejected, snd (validateWIF_traced wif log))) \<and>
   (validateWIF wif = True \<longrightarrow>
      (\<exists>address. deriveAddressFromWIF wif = Inr address) \<and>
      (\<exists>tx. signSequestrationTx now wif amount destination = Inr tx)) \<and>
   fst (validateWIF_traced wif log) = validateWIF wif \<and>
   fst (deriveAddressFromWIF_traced wif log) = deriveAddressFromWIF wif \<and>
   fst (signSequestrationTx_traced now wif amount destination log) =
     signSequestrationTx now wif amount destination \<and>
   snd (validateWIF_traced wif log) =
     log @
     (case decodeBase58 wif of
        Inl e \<Rightarrow> []
      | Inr decoded \<Rightarrow>
          if length decoded = 38 \<and> decoded ! 0 = 0x80 \<and> decoded ! 33 = 0x01
          then [Digest (take 34 decoded), Digest (sha256 (take 34 decoded))]
          else [])"
proof -
  have invalid: "deriveAddressFromWIF wif = Inl InvalidWIF \<and>
      signSequestrationTx now wif amount destination = Inl InvalidWIFSigningRejected \<and>
      deriveAddressFromWIF_traced wif log =
        (Inl InvalidWIF, snd (validateWIF_traced wif log)) \<and>
      signSequestrationTx_traced now wif amount destination log =
        (Inl InvalidWIFSigningRejected, snd (validateWIF_traced wif log))"
    if "validateWIF wif = False"
  proof -
    from that have inv: "\<not> validateWIF wif"
      by simp
    show ?thesis
      using not_validateWIF_errors [OF inv] invalid_key_traced [OF inv] by simp
  qed
  have valid: "(\<exists>address. deriveAddressFromWIF wif = Inr address) \<and>
      (\<exists>tx. signSequestrationTx now wif amount destination = Inr tx)"
    if "validateWIF wif = True"
  proof -
    from that have v: "validateWIF wif"
      by simp
    then obtain decoded where "decodeBase58 wif = Inr decoded"
      by (rule validateWIF_decoded)
    from deriveAddressFromWIF_valid [OF v this]
    have "\<exists>address. deriveAddressFromWIF wif = Inr address"
      by blast
    moreover from v have "\<exists>tx. signSequestrationTx now wif amount destination = Inr tx"
      by (rule signSequestrationTx_valid) blast
    ultimately show ?thesis
      by simp
  qed
  from invalid valid show ?thesis
    by (simp only: validateWIF_traced_fst deriveAddressFromWIF_traced_fst
        signSequestrationTx_traced_fst validateWIF_traced_snd [symmetric]) blast
qed

text \<open>
  The reference key of the all-zero secret is accepted; with its last character altered
  it is rejected by both functions, which log what its validation logs and nothing more.
\<close>

theorem invalid_key_errors_witness:
  "validateWIF (str ''KwDiBf89QgGbjEhKnhXJuH7LrciVrZi3qYjgd9M7rFU73Nd2Mcv2'') = False \<and>
   deriveAddressFromWIF (str ''KwDiBf89QgGbjEhKnhXJuH7LrciVrZi3qYjgd9M7rFU73Nd2Mcv2'') =
     Inl InvalidWIF \<and>
   signSequestrationTx 0 (str ''KwDiBf89QgGbjEhKnhXJuH7LrciVrZi3qYjgd9M7rFU73Nd2Mcv2'')
     \<lparr>amount_text = str ''1.5'', amount_floor = Integral 150000000\<rparr> [] =
     Inl InvalidWIFSigningRejected \<and>
   deriveAddressFromWIF_traced
     (str ''KwDiBf89QgGbjEhKnhXJuH7LrciVrZi3qYjgd9M7rFU73Nd2Mcv2'') [] =
     (Inl InvalidWIF,
      snd (validateWIF_traced (str ''KwDiBf89QgGbjEhKnhXJuH7LrciVrZi3qYjgd9M7rFU73Nd2Mcv2'') [])) \<and>
   signSequestrationTx_traced 0 (str ''KwDiBf89QgGbjEhKnhXJuH7LrciVrZi3qYjgd9M7rFU73Nd2Mcv2'')
     \<lparr>amount_text = str ''1.5'', amount_floor = Integral 150000000\<rparr> [] [] =
     (Inl InvalidWIFSigningRejected,
      snd (validateWIF_traced (str ''KwDiBf89QgGbjEhKnhXJuH7LrciVrZi3qYjgd9M7rFU73Nd2Mcv2'') [])) \<and>
   validateWIF (str ''KwDiBf89QgGbjEhKnhXJuH7LrciVrZi3qYjgd9M7rFU73Nd2Mcv1'') = True \<and>
   (\<exists>address. deriveAddressFromWIF
      (str ''KwDiBf89QgGbjEhKnhXJuH7LrciVrZi3qYjgd9M7rFU73Nd2Mcv1'') = Inr address) \<and>
   (\<exists>tx. signSequestrationTx 0 (str ''KwDiBf89QgGbjEhKnhXJuH7LrciVrZi3qYjgd9M7rFU73Nd2Mcv1'')
      \<lparr>amount_text = str ''1.5'', amount_floor = Integral 150000000\<rparr> [] = Inr tx)"
proof -
  let ?a = "\<lparr>amount_text = str ''1.5'', amount_floor = Integral 150000000\<rparr>"
  have bad: "validateWIF (str ''KwDiBf89QgGbjEhKnhXJuH7LrciVrZi3qYjgd9M7rFU73Nd2Mcv2'') = False"
    using altered_key_invalid by simp
  have good: "validateWIF (str ''KwDiBf89QgGbjEhKnhXJuH7LrciVrZi3qYjgd9M7rFU73Nd2Mcv1'') = True"
    using zero_key_valid by simp
  from invalid_key_errors
    [of "str ''KwDiBf89QgGbjEhKnhXJuH7LrciVrZi3qYjgd9M7rFU73Nd2Mcv2''" 0 ?a "[]" "[]"] bad
  have "deriveAddressFromWIF (str ''KwDiBf89QgGbjEhKnhXJuH7LrciVrZi3qYjgd9M7rFU73Nd2Mcv2'') =
      Inl InvalidWIF"
    and "signSequestrationTx 0 (str ''KwDiBf89QgGbjEhKnhXJuH7LrciVrZi3qYjgd9M7rFU73Nd2Mcv2'')
      ?a [] = Inl InvalidWIFSigningRejected"
    and "deriveAddressFromWIF_traced
      (str ''KwDiBf89QgGbjEhKnhXJuH7LrciVrZi3qYjgd9M7rFU73Nd2Mcv2'') [] =
      (Inl InvalidWIF,
       snd (validateWIF_traced (str ''KwDiBf89QgGbjEhKnhXJuH7LrciVrZi3qYjgd9M7rFU73Nd2Mcv2'') []))"
    and "signSequestrationTx_traced 0
      (str ''KwDiBf89QgGbjEhKnhXJuH7LrciVrZi3qYjgd9M7rFU73Nd2Mcv2'') ?a [] [] =
      (Inl InvalidWIFSigningRejected,
       snd (validateWIF_traced (str ''KwDiBf89QgGbjEhKnhXJuH7LrciVrZi3qYjgd9M7rFU73Nd2Mcv2'') []))"
    by blast+
  moreover from invalid_key_errors
    [of "str ''KwDiBf89QgGbjEhKnhXJuH7LrciVrZi3qYjgd9M7rFU73Nd2Mcv1''" 0 ?a "[]" "[]"] good
  have "\<exists>address. deriveAddressFromWIF
      (str ''KwDiBf89QgGbjEhKnhXJuH7LrciVrZi3qYjgd9M7rFU73Nd2Mcv1'') = Inr address"
    and "\<exists>tx. signSequestrationTx 0 (str ''KwDiBf89QgGbjEhKnhXJuH7LrciVrZi3qYjgd9M7rFU73Nd2Mcv1'')
      ?a [] = Inr tx"
    by blast+
  ultimately show ?thesis
    using bad good by blast
qed

text \<open>
  C6 (as amended). For every valid key, destination and amount (a double \<open>x\<close>, with
  decimal rendering \<open>text\<close>), the raw record is the template with three splices: the
  first 64 characters of the tag (the lowercase hexadecimal of the HMAC, exactly 64
  characters), the amount field, and the first 40 characters of the destination, with
  \<^verbatim>\<open>1976a914\<close> right before the destination. The amount field is
  \<^verbatim>\<open>Math.floor\<close> of the double product \<^verbatim>\<open>amount * 100000000\<close>, rendered by
  \<^verbatim>\<open>toString(16)\<close> and padded with zeros on the left to at least 16 characters: it is
  the 16 lowercase hexadecimal digits of the floored value when that lies between 0 and
  \<open>2 ^ 64 - 1\<close>, and it is longer than 16 characters from \<open>2 ^ 64\<close> on.
\<close>

theorem raw_record_template:
  assumes "validateWIF wif"
  shows "\<exists>decoded tx.
    decodeBase58 wif = Inr decoded \<and>
    signSequestrationTx now wif (js_amount text x) destination = Inr tx \<and>
    signature tx = spec_hex (hmac_sha256 (take 32 (drop 1 decoded))
      (utf8 (text @ str '':'' @ destination @ str '':'' @ int_toString 10 now))) \<and>
    length (signature tx) = 64 \<and>
    raw tx = str ''0200000001'' @ take 64 (signature tx) @ str ''00000000ffffffff01'' @
      padStart 16 (digit_char 0)
        (floored_toString16 (Math_floor (number_times x (Double 100000000 0)))) @
      str ''1976a914'' @ take 40 destination @ str ''88ac00000000'' \<and>
    (\<forall>v. Math_floor (number_times x (Double 100000000 0)) = Integral v \<longrightarrow>
       (0 \<le> v \<and> v < 2 ^ 64 \<longrightarrow>
          padStart 16 (digit_char 0)
            (floored_toString16 (Math_floor (number_times x (Double 100000000 0)))) =
          spec_hex_fixed 16 v) \<and>
       (2 ^ 64 \<le> v \<longrightarrow>
          16 < length (padStart 16 (digit_char 0)
            (floored_toString16 (Math_floor (number_times x (Double 100000000 0)))))))"
proof -
  let ?f = "Math_floor (number_times x (Double 100000000 0))"
  from assms obtain decoded tx where
    d: "decodeBase58 wif = Inr decoded" and
    s: "signSequestrationTx now wif (js_amount text x) destination = Inr tx" and
    sig: "signature tx = hex_bytes (hmac_sha256 (take 32 (drop 1 decoded))
       (utf8 (amount_text (js_amount text x) @ str '':'' @ destination @ str '':'' @
          int_toString 10 now)))" and
    r: "raw tx = str ''0200000001'' @ take 64 (signature tx) @ str ''00000000ffffffff01'' @
       padStart 16 (digit_char 0) (floored_toString16 (amount_floor (js_amount text x))) @
       str ''1976a914'' @ take 40 destination @ str ''88ac00000000''"
    by (rule signSequestrationTx_valid)
  have t: "amount_text (js_amount text x) = text" and f: "amount_floor (js_amount text x) = ?f"
    by (simp_all add: js_amount_def)
  have len: "length (signature tx) = 64"
    by (simp only: sig length_signature)
  have field: "\<forall>v. ?f = Integral v \<longrightarrow>
       (0 \<le> v \<and> v < 2 ^ 64 \<longrightarrow>
          padStart 16 (digit_char 0) (floored_toString16 ?f) = spec_hex_fixed 16 v) \<and>
       (2 ^ 64 \<le> v \<longrightarrow> 16 < length (padStart 16 (digit_char 0) (floored_toString16 ?f)))"
    using amount_field_exact amount_field_wide by simp
  from d s sig [unfolded hex_bytes_eq t] len r [unfolded f] field show ?thesis
    by blast
qed

text \<open>
  The reference key and a 34-character destination. For the amount 1.5 the field is
  \<^verbatim>\<open>0000000008f0d180\<close>. For the amount 0.000001, the double 4722366482869645 *
  2 ^ -72 just below a millionth, the double product is 100 and the field is
  \<^verbatim>\<open>0000000000000064\<close>.
\<close>

theorem raw_record_template_witness:
  "validateWIF (str ''KwDiBf89QgGbjEhKnhXJuH7LrciVrZi3qYjgd9M7rFU73Nd2Mcv1'') \<and>
   is_double (Double 3 (- 1)) \<and> is_double (Double 4722366482869645 (- 72)) \<and>
   (\<exists>tx. signSequestrationTx 1762166400000
       (str ''KwDiBf89QgGbjEhKnhXJuH7LrciVrZi3qYjgd9M7rFU73Nd2Mcv1'')
       (js_amount (str ''1.5'') (Double 3 (- 1)))
       (str ''14wQys5AaYeJ6qGkVC5Q9UcwMKwX1MHspW'') = Inr tx \<and>
     length (signature tx) = 64 \<and>
     raw tx = str ''0200000001'' @ take 64 (signature tx) @ str ''00000000ffffffff01'' @
       str ''0000000008f0d180'' @ str ''1976a914'' @
       str ''14wQys5AaYeJ6qGkVC5Q9UcwMKwX1MHspW'' @ str ''88ac00000000'') \<and>
   (\<exists>tx. signSequestrationTx 1762166400000
       (str ''KwDiBf89QgGbjEhKnhXJuH7LrciVrZi3qYjgd9M7rFU73Nd2Mcv1'')
       (js_amount (str ''0.000001'') (Double 4722366482869645 (- 72)))
       (str ''14wQys5AaYeJ6qGkVC5Q9UcwMKwX1MHspW'') = Inr tx \<and>
     raw tx = str ''0200000001'' @ take 64 (signature tx) @ str ''00000000ffffffff01'' @
       str ''0000000000000064'' @ str ''1976a914'' @
       str ''14wQys5AaYeJ6qGkVC5Q9UcwMKwX1MHspW'' @ str ''88ac00000000'')"
proof -
  let ?w = "str ''KwDiBf89QgGbjEhKnhXJuH7LrciVrZi3qYjgd9M7rFU73Nd2Mcv1''"
  let ?d = "str ''14wQys5AaYeJ6qGkVC5Q9UcwMKwX1MHspW''"
  have dest: "take 40 ?d = ?d"
    by (simp add: length_str)
  have doubles: "is_double (Double 3 (- 1))" "is_double (Double 4722366482869645 (- 72))"
    by (simp_all add: is_double_def)
  from raw_record_template [OF zero_key_valid, of 1762166400000 "str ''1.5''" "Double 3 (- 1)" ?d]
  have one: "\<exists>tx. signSequestrationTx 1762166400000 ?w
       (js_amount (str ''1.5'') (Double 3 (- 1))) ?d = Inr tx \<and>
     length (signature tx) = 64 \<and>
     raw tx = str ''0200000001'' @ take 64 (signature tx) @ str ''00000000ffffffff01'' @
       str ''0000000008f0d180'' @ str ''1976a914'' @ ?d @ str ''88ac00000000''"
    unfolding floor_1_5 dest
    by (auto simp: amount_field_150000000)
  from raw_record_template [OF zero_key_valid, of 1762166400000 "str ''0.000001''"
      "Double 4722366482869645 (- 72)" ?d]
  have two: "\<exists>tx. signSequestrationTx 1762166400000 ?w
       (js_amount (str ''0.000001'') (Double 4722366482869645 (- 72))) ?d = Inr tx \<and>
     raw tx = str ''0200000001'' @ take 64 (signature tx) @ str ''00000000ffffffff01'' @
       str ''0000000000000064'' @ str ''1976a914'' @ ?d @ str ''88ac00000000''"
    unfolding floor_1em6 dest
    by (auto simp: amount_field_100)
  from one two doubles zero_key_valid show ?thesis
    by blast
qed

text \<open>
  C6 as stated fails for the amount 200000000000: the double product with 100000000 is
  20000000000000000000, whose rendering \<^verbatim>\<open>1158e460913d00000\<close> has 17 digits, so the
  amount field has 17 characters and \<^verbatim>\<open>1976a914\<close> starts one character later.
\<close>

theorem amount_field_counterexample:
  "is_double (Double 200000000000 0) \<and>
   Math_floor (number_times (Double 200000000000 0) (Double 100000000 0)) =
     Integral 20000000000000000000 \<and>
   \<not> isl (signSequestrationTx 1762166400000
       (str ''KwDiBf89QgGbjEhKnhXJuH7LrciVrZi3qYjgd9M7rFU73Nd2Mcv1'')
       (js_amount (str ''200000000000'') (Double 200000000000 0))
       (str ''14wQys5AaYeJ6qGkVC5Q9UcwMKwX1MHspW'')) \<and>
   take 17 (drop 92 (raw (projr (signSequestrationTx 1762166400000
       (str ''KwDiBf89QgGbjEhKnhXJuH7LrciVrZi3qYjgd9M7rFU73Nd2Mcv1'')
       (js_amount (str ''200000000000'') (Double 200000000000 0))
       (str ''14wQys5AaYeJ6qGkVC5Q9UcwMKwX1MHspW''))))) =
     str ''1158e460913d00000'' \<and>
   take 8 (drop 109 (raw (projr (signSequestrationTx 1762166400000
       (str ''KwDiBf89QgGbjEhKnhXJuH7LrciVrZi3qYjgd9M7rFU73Nd2Mcv1'')
       (js_amount (str ''200000000000'') (Double 200000000000 0))
       (str ''14wQys5AaYeJ6qGkVC5Q9UcwMKwX1MHspW''))))) =
     str ''1976a914'' \<and>
   take 8 (drop 108 (raw (projr (signSequestrationTx 1762166400000
       (str ''KwDiBf89QgGbjEhKnhXJuH7LrciVrZi3qYjgd9M7rFU73Nd2Mcv1'')
       (js_amount (str ''200000000000'') (Double 200000000000 0))
       (str ''14wQys5AaYeJ6qGkVC5Q9UcwMKwX1MHspW''))))) \<noteq>
     str ''1976a914''"
proof -
  let ?w = "str ''KwDiBf89QgGbjEhKnhXJuH7LrciVrZi3qYjgd9M7rFU73Nd2Mcv1''"
  let ?a = "js_amount (str ''200000000000'') (Double 200000000000 0)"
  let ?d = "str ''14wQys5AaYeJ6qGkVC5Q9UcwMKwX1MHspW''"
  have dbl: "is_double (Double 200000000000 0)"
    by (simp add: is_double_def)
  from zero_key_valid obtain decoded tx where
    s: "signSequestrationTx 1762166400000 ?w ?a ?d = Inr tx" and
    sig: "signature tx = hex_bytes (hmac_sha256 (take 32 (drop 1 decoded))
       (utf8 (amount_text ?a @ str '':'' @ ?d @ str '':'' @ int_toString 10 1762166400000)))" and
    r: "raw tx = str ''0200000001'' @ take 64 (signature tx) @ str ''00000000ffffffff01'' @
       padStart 16 (digit_char 0) (floored_toString16 (amount_floor ?a)) @
       str ''1976a914'' @ take 40 ?d @ str ''88ac00000000''"
    by (rule signSequestrationTx_valid)
  have len: "length (signature tx) = 64"
    by (simp only: sig length_signature)
  have fl: "amount_floor ?a = Integral 20000000000000000000"
    unfolding js_amount_def floor_2e11 by simp
  have field: "padStart 16 (digit_char 0) (floored_toString16 (amount_floor ?a)) =
      str ''1158e460913d00000''"
    unfolding fl by (rule amount_field_2e19)
  have "drop 92 (raw tx) =
      padStart 16 (digit_char 0) (floored_toString16 (amount_floor ?a)) @
      str ''1976a914'' @ take 40 ?d @ str ''88ac00000000''"
    unfolding r by (rule drop_template) (simp_all add: length_str len)
  then have rest: "drop 92 (raw tx) =
      str ''1158e460913d00000'' @ str ''1976a914'' @ take 40 ?d @ str ''88ac00000000''"
    unfolding field .
  have a: "take 17 (drop 92 (raw tx)) = str ''1158e460913d00000''"
    unfolding rest by (simp add: length_str)
  have "drop 109 (raw tx) = drop 17 (drop 92 (raw tx))"
    by simp
  then have b: "take 8 (drop 109 (raw tx)) = str ''1976a914''"
    unfolding rest by (simp add: length_str)
  have "drop 108 (raw tx) = drop 16 (drop 92 (raw tx))"
    by simp
  then have c: "take 8 (drop 108 (raw tx)) \<noteq> str ''1976a914''"
    unfolding rest by (simp add: str_def)
  show ?thesis
    unfolding s floor_2e11 using a b c dbl by simp
qed

text \<open>
  C7. For every transaction \<^verbatim>\<open>signSequestrationTx\<close> returns, the \<^verbatim>\<open>txid\<close> is the lowercase
  hexadecimal of the byte-reversed double digest of the UTF-8 bytes of its \<^verbatim>\<open>raw\<close> string.
\<close>

theorem txid_of_raw:
  assumes "signSequestrationTx now wif amount destination = Inr tx"
  shows "txid tx = spec_hex (rev (doubleSha256 (utf8 (raw tx))))"
proof -
  from assms have "validateWIF wif"
    by (rule signSequestrationTx_Inr_valid)
  then obtain decoded tx' where
    s: "signSequestrationTx now wif amount destination = Inr tx'" and
    t: "txid tx' = hex_bytes (rev (doubleSha256 (utf8 (raw tx'))))"
    by (rule signSequestrationTx_valid)
  from s assms have "tx' = tx"
    by simp
  with t show ?thesis
    by (simp add: hex_bytes_eq)
qed

theorem txid_of_raw_witness:
  "\<exists>tx. signSequestrationTx 1762166400000
       (str ''KwDiBf89QgGbjEhKnhXJuH7LrciVrZi3qYjgd9M7rFU73Nd2Mcv1'')
       \<lparr>amount_text = str ''1.5'', amount_floor = Integral 150000000\<rparr>
       (str ''14wQys5AaYeJ6qGkVC5Q9UcwMKwX1MHspW'') = Inr tx \<and>
     txid tx = spec_hex (rev (doubleSha256 (utf8 (raw tx)))) \<and>
     length (txid tx) = 64"
proof -
  from zero_key_valid obtain decoded tx where
    s: "signSequestrationTx 1762166400000
       (str ''KwDiBf89QgGbjEhKnhXJuH7LrciVrZi3qYjgd9M7rFU73Nd2Mcv1'')
       \<lparr>amount_text = str ''1.5'', amount_floor = Integral 150000000\<rparr>
       (str ''14wQys5AaYeJ6qGkVC5Q9UcwMKwX1MHspW'') = Inr tx"
    by (rule signSequestrationTx_valid)
  from txid_of_raw [OF s]
  have t: "txid tx = spec_hex (rev (doubleSha256 (utf8 (raw tx))))" .
  then have "length (txid tx) = 64"
    by (simp add: hex_bytes_eq [symmetric] length_hex_bytes length_doubleSha256)
  with s t show ?thesis
    by blast
qed

text \<open>
  C8. For every secret (of 32 bytes or any other length), \<^verbatim>\<open>deriveAddressFromPrivKey\<close>
  returns the Base58 encoding of exactly 25 bytes: the version byte 0x00, the first 20
  bytes of the digest of the digest of the secret, and the first four bytes of the double
  digest of these 21 bytes.
\<close>

theorem address_layout:
  "deriveAddressFromPrivKey privKey = Inr (encodeBase58 (spec_IdentityBlob privKey)) \<and>
   length (spec_IdentityBlob privKey) = 25 \<and>
   spec_IdentityBlob privKey ! 0 = 0x00 \<and>
   take 20 (drop 1 (spec_IdentityBlob privKey)) = take 20 (sha256 (sha256 privKey)) \<and>
   length (take 20 (sha256 (sha256 privKey))) = 20 \<and>
   drop 21 (spec_IdentityBlob privKey) =
     take 4 (doubleSha256 (take 21 (spec_IdentityBlob privKey))) \<and>
   length (drop 21 (spec_IdentityBlob privKey)) = 4"
proof -
  let ?h = "take 20 (sha256 (sha256 privKey))"
  have h: "length ?h = 20"
    by (simp add: length_sha256)
  have blob: "spec_IdentityBlob privKey = (0x00 # ?h) @ take 4 (doubleSha256 (0x00 # ?h))"
    by (simp add: spec_IdentityBlob_def)
  have "deriveAddressFromPrivKey privKey = Inr (encodeBase58 (spec_IdentityBlob privKey))"
    by (rule deriveAddressFromPrivKey_eq)
  moreover have "length (spec_IdentityBlob privKey) = 25"
    by (rule length_spec_IdentityBlob)
  moreover have "spec_IdentityBlob privKey ! 0 = 0x00"
    by (simp add: blob)
  moreover have "take 20 (drop 1 (spec_IdentityBlob privKey)) = ?h"
    using h by (simp add: blob)
  moreover have t21: "take 21 (spec_IdentityBlob privKey) = 0x00 # ?h"
    using h by (simp add: blob)
  moreover have "drop 21 (spec_IdentityBlob privKey) = take 4 (doubleSha256 (0x00 # ?h))"
    using h by (simp add: blob)
  moreover have "length (take 4 (doubleSha256 (0x00 # ?h))) = 4"
    by (simp add: length_doubleSha256)
  ultimately show ?thesis
    using h by simp
qed

text \<open>
  C10. For every key that \<^verbatim>\<open>validateWIF\<close> accepts, every amount and every destination
  string (empty, shorter than 40 characters, or with characters that are no hexadecimal
  digits), \<^verbatim>\<open>signSequestrationTx\<close> returns a transaction. Its raw record embeds the
  first \<open>min 40 (length destination)\<close> characters of the destination unchanged, so the
  length of the raw record varies with the destination.
\<close>

theorem sign_total_on_valid_keys:
  assumes "validateWIF wif"
  shows "\<exists>tx. signSequestrationTx now wif amount destination = Inr tx \<and>
    raw tx = str ''0200000001'' @ signature tx @ str ''00000000ffffffff01'' @
      padStart 16 (digit_char 0) (floored_toString16 (amount_floor amount)) @
      str ''1976a914'' @ take (min 40 (length destination)) destination @
      str ''88ac00000000'' \<and>
    length (raw tx) =
      112 + max 16 (length (floored_toString16 (amount_floor amount))) +
      min 40 (length destination)"
proof -
  from assms obtain decoded tx where
    s: "signSequestrationTx now wif amount destination = Inr tx" and
    sig: "signature tx = hex_bytes (hmac_sha256 (take 32 (drop 1 decoded))
       (utf8 (amount_text amount @ str '':'' @ destination @ str '':'' @ int_toString 10 now)))" and
    r: "raw tx = str ''0200000001'' @ take 64 (signature tx) @ str ''00000000ffffffff01'' @
       padStart 16 (digit_char 0) (floored_toString16 (amount_floor amount)) @
       str ''1976a914'' @ take 40 destination @ str ''88ac00000000''"
    by (rule signSequestrationTx_valid)
  have len: "length (signature tx) = 64"
    by (simp only: sig length_signature)
  then have whole: "take 64 (signature tx) = signature tx"
    by simp
  have dest: "take 40 destination = take (min 40 (length destination)) destination"
    by (simp add: min_def)
  have raw: "raw tx = str ''0200000001'' @ signature tx @ str ''00000000ffffffff01'' @
      padStart 16 (digit_char 0) (floored_toString16 (amount_floor amount)) @
      str ''1976a914'' @ take (min 40 (length destination)) destination @
      str ''88ac00000000''"
    using r unfolding whole dest [symmetric] .
  have "length (raw tx) =
      112 + max 16 (length (floored_toString16 (amount_floor amount))) +
      min 40 (length destination)"
    unfolding raw by (simp add: length_str length_padStart len)
  with s raw show ?thesis
    by blast
qed

text \<open>
  The reference key with the empty destination, and with a short destination that is
  not hexadecimal.
\<close>

theorem sign_total_on_valid_keys_witness:
  "validateWIF (str ''KwDiBf89QgGbjEhKnhXJuH7LrciVrZi3qYjgd9M7rFU73Nd2Mcv1'') \<and>
   (\<exists>tx. signSequestrationTx 1762166400000
       (str ''KwDiBf89QgGbjEhKnhXJuH7LrciVrZi3qYjgd9M7rFU73Nd2Mcv1'')
       \<lparr>amount_text = str ''1.5'', amount_floor = Integral 150000000\<rparr> [] = Inr tx \<and>
     length (raw tx) = 128) \<and>
   (\<exists>tx. signSequestrationTx 1762166400000
       (str ''KwDiBf89QgGbjEhKnhXJuH7LrciVrZi3qYjgd9M7rFU73Nd2Mcv1'')
       \<lparr>amount_text = str ''NaN'', amount_floor = NotANumber\<rparr> (str ''not hex!'') = Inr tx \<and>
     raw tx = str ''0200000001'' @ signature tx @ str ''00000000ffffffff01'' @
       str ''0000000000000NaN'' @ str ''1976a914'' @ str ''not hex!'' @ str ''88ac00000000'' \<and>
     length (raw tx) = 136)"
proof -
  let ?w = "str ''KwDiBf89QgGbjEhKnhXJuH7LrciVrZi3qYjgd9M7rFU73Nd2Mcv1''"
  let ?a = "\<lparr>amount_text = str ''1.5'', amount_floor = Integral 150000000\<rparr>"
  let ?b = "\<lparr>amount_text = str ''NaN'', amount_floor = NotANumber\<rparr>"
  have f: "length (floored_toString16 (amount_floor ?a)) = 7"
    by code_simp
  have g: "padStart 16 (digit_char 0) (floored_toString16 (amount_floor ?b)) =
      str ''0000000000000NaN''"
    by code_simp
  from sign_total_on_valid_keys [OF zero_key_valid, of 1762166400000 ?a "[]"]
  have one: "\<exists>tx. signSequestrationTx 1762166400000 ?w ?a [] = Inr tx \<and> length (raw tx) = 128"
    unfolding f by auto
  from sign_total_on_valid_keys [OF zero_key_valid, of 1762166400000 ?b "str ''not hex!''"]
  have two: "\<exists>tx. signSequestrationTx 1762166400000 ?w ?b (str ''not hex!'') = Inr tx \<and>
     raw tx = str ''0200000001'' @ signature tx @ str ''00000000ffffffff01'' @
       str ''0000000000000NaN'' @ str ''1976a914'' @ str ''not hex!'' @ str ''88ac00000000'' \<and>
     length (raw tx) = 136"
    unfolding g by (auto simp: length_str)
  from one two zero_key_valid show ?thesis
    by blast
qed

end
